theory Spec2Isabelle
  imports Complex_Main
begin

section \<open>Errors and Python values\<close>

text \<open>
  The exceptions the engine raises.  \<open>ValueError\<close> and \<open>IllegalActionError\<close> carry the
  fixed part of the message of the \<open>raise\<close> statement; \<open>KeyError\<close> and \<open>IndexError\<close> are
  the interpreter's own lookup failures (a missing dictionary key, an index out of range).
\<close>

datatype error =
    ValueError string
  | IllegalActionError string
  | KeyError
  | IndexError

section \<open>Island geography: \<open>Island.validate_map\<close> and \<open>Island._build_island\<close>\<close>

text \<open>The four landscape classes, and \<open>Island.cell_map\<close> from characters to classes.\<close>

datatype land = Lowland | Water | Desert | Highland

definition cell_map :: "char \<rightharpoonup> land" where
  "cell_map = map_of [(CHR ''L'', Lowland), (CHR ''W'', Water),
                      (CHR ''D'', Desert), (CHR ''H'', Highland)]"

text \<open>\<open>str.split("\n")\<close>: the pieces between line feeds; never the empty list.\<close>

fun split_nl :: "string \<Rightarrow> string list" where
  "split_nl [] = [[]]"
| "split_nl (c # cs) =
     (if c = CHR 0x0A then [] # split_nl cs
      else (case split_nl cs of [] \<Rightarrow> [[c]] | l # ls \<Rightarrow> (c # l) # ls))"

text \<open>
  The helper \<open>get_distinct\<close> of \<open>validate_map\<close>: \<open>"".join(list(set(items)))\<close>.  The order
  of a Python set is unspecified; the result is only ever compared with the one-character
  string \<open>"W"\<close>, for which the order does not matter.
\<close>

definition get_distinct :: "string \<Rightarrow> string" where
  "get_distinct items = remdups items"

text \<open>
  \<open>Island.validate_map\<close>.  \<open>geo_split[0]\<close>, \<open>line[0]\<close> and \<open>line[-1]\<close> raise
  \<open>IndexError\<close> on an empty sequence; these are branches of the model.
\<close>

definition validate_map :: "string \<Rightarrow> error + unit" where
  "validate_map geography =
     (if list_ex (\<lambda>cell_type. cell_map cell_type = None)
           (filter (\<lambda>c. c \<noteq> CHR 0x0A) geography)
      then Inl (ValueError ''Invalid cell type'')
      else let geo_split = split_nl geography in
        if length (remdups (map length geo_split)) \<noteq> 1
        then Inl (ValueError ''Not all rows of the Island are of the same size.'')
        else if geo_split = [] then Inl IndexError
        else if get_distinct (hd geo_split) \<noteq> ''W''
        then Inl (ValueError ''Top row is not all water'')
        else if get_distinct (last geo_split) \<noteq> ''W''
        then Inl (ValueError ''Bottom row is not all water'')
        else if list_ex (\<lambda>line. line = []) geo_split then Inl IndexError
        else if get_distinct (map hd geo_split) \<noteq> ''W''
        then Inl (ValueError ''Leftmost column is not all water'')
        else if get_distinct (map last geo_split) \<noteq> ''W''
        then Inl (ValueError ''Rightmost column is not all water'')
        else Inr ())"

section \<open>Parameters, the random source and animals\<close>

text \<open>
  The class-level parameter tables.  \<open>params\<close> holds the attributes of a species class
  (\<open>Herbivore\<close>, \<open>Carnivore\<close>; \<open>DeltaPhiMax\<close> is read for carnivores only), and an
  \<open>env\<close> holds the tables of both species and \<open>f_max\<close> of every landscape class.  The
  defaults are the class bodies of \<open>herbivore.py\<close>, \<open>carnivore.py\<close> and of the landscape
  classes.
\<close>

record params =
  w_birth :: real
  sigma_birth :: real
  beta :: real
  eta :: real
  a_half :: real
  phi_age :: real
  w_half :: real
  phi_weight :: real
  mu :: real
  gamma :: real
  zeta :: real
  xi :: real
  omega :: real
  F :: real
  DeltaPhiMax :: real

datatype species = Herbivore | Carnivore

record env =
  sp :: "species \<Rightarrow> params"
  f_max :: "land \<Rightarrow> real"

definition herbivore_defaults :: params where
  "herbivore_defaults =
     \<lparr>w_birth = 8, sigma_birth = 3/2, beta = 9/10, eta = 1/20, a_half = 40,
      phi_age = 6/10, w_half = 10, phi_weight = 1/10, mu = 1/4, gamma = 2/10,
      zeta = 7/2, xi = 12/10, omega = 4/10, F = 10, DeltaPhiMax = 0\<rparr>"

definition carnivore_defaults :: params where
  "carnivore_defaults =
     \<lparr>w_birth = 6, sigma_birth = 1, beta = 3/4, eta = 1/8, a_half = 40,
      phi_age = 3/10, w_half = 4, phi_weight = 4/10, mu = 4/10, gamma = 8/10,
      zeta = 7/2, xi = 11/10, omega = 8/10, F = 50, DeltaPhiMax = 10\<rparr>"

definition default_f_max :: "land \<Rightarrow> real" where
  "default_f_max l = (case l of Lowland \<Rightarrow> 800 | Highland \<Rightarrow> 300 | Desert \<Rightarrow> 0 | Water \<Rightarrow> 0)"

definition default_env :: env where
  "default_env =
     \<lparr>sp = (\<lambda>s. case s of Herbivore \<Rightarrow> herbivore_defaults | Carnivore \<Rightarrow> carnivore_defaults),
      f_max = default_f_max\<rparr>"

text \<open>
  The ambient state of the interpreter that the engine draws on: the module-level random
  generator and the allocation of new objects.  The generator is an oracle: every call
  consumes one position \<open>pos\<close> of the stream and reads its result there, \<open>floats\<close> for
  \<open>random.random()\<close>, \<open>ints\<close> for the index drawn by \<open>random.choice\<close> and
  \<open>random.shuffle\<close>, \<open>gausses\<close> for the standard normal deviate behind a normal draw.
  \<open>next_aid\<close> is the identity given to the next object created.
\<close>

record world =
  floats :: "nat \<Rightarrow> real"
  ints :: "nat \<Rightarrow> nat"
  gausses :: "nat \<Rightarrow> real"
  pos :: nat
  next_aid :: nat

text \<open>\<open>random.random()\<close> returns a float in \<open>[0, 1)\<close>: the fractional part of the oracle's real.\<close>

definition random_random :: "world \<Rightarrow> real \<times> world" where
  "random_random w = (frac (floats w (pos w)), w\<lparr>pos := Suc (pos w)\<rparr>)"

text \<open>\<open>random.choice(seq)\<close>: \<open>IndexError\<close> on an empty sequence, else a uniformly drawn index.\<close>

definition random_choice :: "'a list \<Rightarrow> world \<Rightarrow> error + ('a \<times> world)" where
  "random_choice seq w =
     (if seq = [] then Inl IndexError
      else Inr (seq ! (ints w (pos w) mod length seq), w\<lparr>pos := Suc (pos w)\<rparr>))"

definition random_gauss :: "real \<Rightarrow> real \<Rightarrow> world \<Rightarrow> real \<times> world" where
  "random_gauss m s w = (m + s * gausses w (pos w), w\<lparr>pos := Suc (pos w)\<rparr>)"

text \<open>
  \<open>random.shuffle(x)\<close>: \<open>for i in reversed(range(1, len(x))): j = randbelow(i + 1);
  x[i], x[j] = x[j], x[i]\<close>.  The first argument counts the positions still to visit.
\<close>

fun shuffle_from :: "nat \<Rightarrow> 'a list \<Rightarrow> world \<Rightarrow> 'a list \<times> world" where
  "shuffle_from 0 x w = (x, w)"
| "shuffle_from (Suc i) x w =
     (if i = 0 then (x, w)
      else let j = ints w (pos w) mod (Suc i);
               w' = w\<lparr>pos := Suc (pos w)\<rparr>
           in shuffle_from i (x[i := x ! j, j := x ! i]) w')"

definition random_shuffle :: "'a list \<Rightarrow> world \<Rightarrow> 'a list \<times> world" where
  "random_shuffle x w = shuffle_from (length x) x w"

text \<open>
  An animal object.  \<open>aid\<close> is the identity of the object (Python compares animals by
  identity, as \<open>list.remove\<close> does in \<open>Baseland.remove_animal\<close>); the memoised
  \<open>_fitness\<close> is not a field: the value read is always the one computed from the current
  age, weight and parameters.
\<close>

record animal =
  aid :: nat
  species :: species
  age :: int
  weight :: real
  is_dead :: bool

text \<open>
  Modelled from the spec: the base class \<open>Animal\<close> (\<open>animals/animal.py\<close>) is missing from
  the sources; \<open>fitness\<close>, \<open>feeding\<close>, \<open>aging\<close>, \<open>lose_weight\<close>, \<open>death\<close>,
  \<open>migrate\<close>, \<open>give_birth\<close> and the constructor follow section 4.1 of the specification
  and the calls and assertions of \<open>tests/test_animal.py\<close>.
\<close>

definition fitness :: "env \<Rightarrow> animal \<Rightarrow> real" where
  "fitness E a =
     (let p = sp E (species a) in
      if weight a \<le> 0 then 0
      else (1 / (1 + exp (phi_age p * (of_int (age a) - a_half p))))
         * (1 / (1 + exp (- phi_weight p * (weight a - w_half p)))))"

text \<open>
  Modelled from the spec: \<open>feeding(amount)\<close> consumes the smaller of the amount on offer
  and the appetite \<open>F\<close>, adds \<open>beta\<close> times the amount consumed to the weight and returns
  the amount consumed.
\<close>

definition feeding :: "env \<Rightarrow> animal \<Rightarrow> real \<Rightarrow> animal \<times> real" where
  "feeding E a amount =
     (let p = sp E (species a);
          eaten = min amount (F p)
      in (a\<lparr>weight := weight a + beta p * eaten\<rparr>, eaten))"

definition aging_animal :: "animal \<Rightarrow> animal" where
  "aging_animal a = a\<lparr>age := age a + 1\<rparr>"

definition lose_weight_animal :: "env \<Rightarrow> animal \<Rightarrow> animal" where
  "lose_weight_animal E a = a\<lparr>weight := weight a - eta (sp E (species a)) * weight a\<rparr>"

definition death :: "env \<Rightarrow> animal \<Rightarrow> world \<Rightarrow> bool \<times> world" where
  "death E a w =
     (if weight a \<le> 0 then (True, w)
      else let (r, w') = random_random w
           in (r < omega (sp E (species a)) * (1 - fitness E a), w'))"

definition migrate_animal :: "env \<Rightarrow> animal \<Rightarrow> world \<Rightarrow> bool \<times> world" where
  "migrate_animal E a w =
     (let (r, w') = random_random w
      in (r < mu (sp E (species a)) * fitness E a, w'))"

text \<open>
  Modelled from the spec: the constructor \<open>Animal(age, weight)\<close>.  A negative age or
  weight is a \<open>ValueError\<close>; a weight that is not supplied is drawn from the normal
  distribution of the species' birth weight and clamped at 0.
\<close>

definition Animal_init :: "env \<Rightarrow> species \<Rightarrow> int \<Rightarrow> real option \<Rightarrow> world \<Rightarrow> error + (animal \<times> world)" where
  "Animal_init E s ag wt w =
     (if ag < 0 then Inl (ValueError ''Age cannot be negative'')
      else case wt of
        Some x \<Rightarrow>
          if x < 0 then Inl (ValueError ''Weight cannot be negative'')
          else Inr (\<lparr>aid = next_aid w, species = s, age = ag, weight = x, is_dead = False\<rparr>,
                    w\<lparr>next_aid := Suc (next_aid w)\<rparr>)
      | None \<Rightarrow>
          let (x, w') = random_gauss (w_birth (sp E s)) (sigma_birth (sp E s)) w
          in Inr (\<lparr>aid = next_aid w', species = s, age = ag, weight = max 0 x, is_dead = False\<rparr>,
                  w'\<lparr>next_aid := Suc (next_aid w')\<rparr>))"

text \<open>
  Modelled from the spec: \<open>give_birth(population_size)\<close>, returning the newborn if any
  and the mother as the call leaves her.
\<close>

definition give_birth :: "env \<Rightarrow> animal \<Rightarrow> int \<Rightarrow> world \<Rightarrow> animal option \<times> animal \<times> world" where
  "give_birth E a n w =
     (let p = sp E (species a) in
      if n \<le> 1 then (None, a, w)
      else
        let prob0 = min 1 (gamma p * fitness E a * (of_int n - 1));
            prob = (if weight a < zeta p * (w_birth p + sigma_birth p) then 0 else prob0);
            (r, w1) = random_random w
        in if r < prob then
             let (x, w2) = random_gauss (w_birth p) (sigma_birth p) w1;
                 newborn = \<lparr>aid = next_aid w2, species = species a, age = 0,
                            weight = max 0 x, is_dead = False\<rparr>;
                 w3 = w2\<lparr>next_aid := Suc (next_aid w2)\<rparr>
             in if weight a - xi p * weight newborn < 0 then (None, a, w3)
                else (Some newborn, a\<lparr>weight := weight a - xi p * weight newborn\<rparr>, w3)
           else (None, a, w1))"

section \<open>Cells and the island\<close>

text \<open>
  A cell object (\<open>Baseland\<close> and its subclasses).  \<open>cls\<close> is the class of the object; it
  decides which \<open>f_max\<close> is read and which \<open>add_animal\<close> runs.
\<close>

record cell =
  cls :: land
  is_habitable :: bool
  fodder :: real
  herbivores :: "animal list"
  carnivores :: "animal list"

text \<open>
  The constructors \<open>Lowland()\<close>, \<open>Highland()\<close>, \<open>Desert()\<close> and \<open>Water()\<close> without
  arguments: \<open>Baseland.__init__\<close> sets the fodder to \<open>f_max\<close> and the populations to empty
  lists, and \<open>Water.__init__\<close> clears \<open>is_habitable\<close>.
\<close>

definition new_cell :: "env \<Rightarrow> land \<Rightarrow> cell" where
  "new_cell E l =
     \<lparr>cls = l, is_habitable = (l \<noteq> Water), fodder = f_max E l,
      herbivores = [], carnivores = []\<rparr>"

type_synonym coord = "int \<times> int"

text \<open>
  The island.  \<open>island_map\<close> is the dictionary from coordinates to cell objects.
  \<open>habitable_map\<close> is a second dictionary whose values are the \<^emph>\<open>same\<close> cell objects: it
  is kept as the list of its keys in insertion order, and its values are read from
  \<open>island_map\<close>, so that a change made through one dictionary is seen through the other.
\<close>

record island =
  geography :: string
  island_map :: "coord \<rightharpoonup> cell"
  habitable_map :: "coord list"

text \<open>
  \<open>Island._build_island\<close>.  \<open>layout\<close> lists the pairs that the dictionary comprehension
  visits, \<open>(i + 1, j + 1)\<close> with the character \<open>y\<close>; \<open>cell_map[y]\<close> raises \<open>KeyError\<close> on
  a character that is not a key.
\<close>

definition layout :: "string \<Rightarrow> (coord \<times> char) list" where
  "layout g =
     concat (map (\<lambda>(i, x). map (\<lambda>(j, y). ((int i + 1, int j + 1), y)) (enumerate 0 x))
                 (enumerate 0 (split_nl g)))"

fun make_cells :: "env \<Rightarrow> (coord \<times> char) list \<Rightarrow> error + (coord \<times> cell) list" where
  "make_cells E [] = Inr []"
| "make_cells E ((k, y) # rest) =
     (case cell_map y of
        None \<Rightarrow> Inl KeyError
      | Some l \<Rightarrow> (case make_cells E rest of
                    Inl e \<Rightarrow> Inl e
                  | Inr cs \<Rightarrow> Inr ((k, new_cell E l) # cs)))"

definition build_island :: "env \<Rightarrow> string \<Rightarrow> error + island" where
  "build_island E g =
     (case make_cells E (layout g) of
        Inl e \<Rightarrow> Inl e
      | Inr cs \<Rightarrow>
          Inr \<lparr>geography = g,
               island_map = map_of cs,
               habitable_map = map fst (filter (\<lambda>(k, c). is_habitable c) cs)\<rparr>)"

text \<open>\<open>Island.__init__\<close>: validate the geography, then build the cells.\<close>

definition Island_init :: "env \<Rightarrow> string \<Rightarrow> error + island" where
  "Island_init E g =
     (case validate_map g of
        Inl e \<Rightarrow> Inl e
      | Inr _ \<Rightarrow> build_island E g)"

text \<open>\<open>Island.move_direction_map\<close> and the sum of a coordinate and a direction.\<close>

definition move_direction_map :: "coord list" where
  "move_direction_map = [(-1, 0), (1, 0), (0, -1), (0, 1)]"

definition coord_add :: "coord \<Rightarrow> coord \<Rightarrow> coord" where
  "coord_add a b = (fst a + fst b, snd a + snd b)"

section \<open>Violations of a geography\<close>

text \<open>
  The three defects of a terrain layout, stated on the layout itself: two rows of different
  length, a character other than a line feed that is none of the four terrain letters, and
  a cell of the first or last row, or the first or last cell of a row, that is not \<open>W\<close>.
\<close>

definition rows_unequal :: "string \<Rightarrow> bool" where
  "rows_unequal g = (\<exists>r1\<in>set (split_nl g). \<exists>r2\<in>set (split_nl g). length r1 \<noteq> length r2)"

definition unknown_terrain :: "string \<Rightarrow> bool" where
  "unknown_terrain g =
     (\<exists>c\<in>set g. c \<noteq> CHR 0x0A \<and> c \<notin> {CHR ''L'', CHR ''W'', CHR ''D'', CHR ''H''})"

definition border_not_water :: "string \<Rightarrow> bool" where
  "border_not_water g =
     (let rows = split_nl g in
        (\<exists>c\<in>set (hd rows). c \<noteq> CHR ''W'') \<or> (\<exists>c\<in>set (last rows). c \<noteq> CHR ''W'') \<or>
        (\<exists>r\<in>set rows. r \<noteq> [] \<and> (hd r \<noteq> CHR ''W'' \<or> last r \<noteq> CHR ''W'')))"

definition border_messages :: "string set" where
  "border_messages = {''Top row is not all water'', ''Bottom row is not all water'',
     ''Leftmost column is not all water'', ''Rightmost column is not all water''}"

section \<open>Cell operations (\<open>Baseland\<close>)\<close>

text \<open>
  \<open>Baseland.place_animal\<close> appends the object to the list of its species, and
  \<open>Baseland.remove_animal\<close> calls \<open>list.remove\<close>, which deletes the first occurrence of
  the object and raises \<open>ValueError\<close> when there is none.
\<close>

definition place_animal :: "cell \<Rightarrow> animal \<Rightarrow> cell" where
  "place_animal c animal_obj =
     (if species animal_obj = Herbivore
      then c\<lparr>herbivores := herbivores c @ [animal_obj]\<rparr>
      else c\<lparr>carnivores := carnivores c @ [animal_obj]\<rparr>)"

fun list_remove :: "animal list \<Rightarrow> animal \<Rightarrow> error + animal list" where
  "list_remove [] x = Inl (ValueError ''list.remove(x): x not in list'')"
| "list_remove (y # ys) x =
     (if aid y = aid x then Inr ys
      else (case list_remove ys x of Inl e \<Rightarrow> Inl e | Inr zs \<Rightarrow> Inr (y # zs)))"

definition remove_animal :: "cell \<Rightarrow> animal \<Rightarrow> error + cell" where
  "remove_animal c animal_obj =
     (if species animal_obj = Herbivore
      then (case list_remove (herbivores c) animal_obj of
              Inl e \<Rightarrow> Inl e | Inr hs \<Rightarrow> Inr (c\<lparr>herbivores := hs\<rparr>))
      else (case list_remove (carnivores c) animal_obj of
              Inl e \<Rightarrow> Inl e | Inr cs \<Rightarrow> Inr (c\<lparr>carnivores := cs\<rparr>)))"

definition num_animals :: "cell \<Rightarrow> nat" where
  "num_animals c = length (herbivores c) + length (carnivores c)"

text \<open>
  The dictionary that describes an animal to \<open>add_animal\<close>:
  \<open>{'species': ..., 'age': ..., 'weight': ...}\<close>, each key present or not.
\<close>

record animal_dict =
  d_species :: "string option"
  d_age :: "int option"
  d_weight :: "real option"

definition animal_map :: "string \<rightharpoonup> species" where
  "animal_map = map_of [(''Herbivore'', Herbivore), (''Carnivore'', Carnivore)]"

text \<open>
  \<open>add_animal\<close>.  \<open>Water.add_animal\<close> overrides \<open>Baseland.add_animal\<close> and raises
  \<open>IllegalActionError\<close> whatever the dictionary holds; on every other class the species is
  looked up, the animal is constructed and \<open>place_animal\<close> appends it.
\<close>

definition add_animal :: "env \<Rightarrow> cell \<Rightarrow> animal_dict \<Rightarrow> world \<Rightarrow> error + (cell \<times> world)" where
  "add_animal E c animal w =
     (if cls c = Water then Inl (IllegalActionError ''Animals cannot be placed on water'')
      else case d_species animal of
        None \<Rightarrow> Inl KeyError
      | Some s \<Rightarrow>
          (case animal_map s of
             None \<Rightarrow> Inl (ValueError ''Invalid animal type'')
           | Some sp_cls \<Rightarrow>
               (case Animal_init E sp_cls (case d_age animal of None \<Rightarrow> 0 | Some n \<Rightarrow> n)
                       (d_weight animal) w of
                  Inl e \<Rightarrow> Inl e
                | Inr (animal_obj, w') \<Rightarrow> Inr (place_animal c animal_obj, w'))))"

text \<open>
  \<open>Baseland.feed_herbivores\<close>.  The loop runs over a copy of the list sorted by decreasing
  fitness (Python's sort is stable, also with \<open>reverse=True\<close>), and stops at the first
  animal that finds no fodder.  The animals are changed in place: \<open>write_back\<close> puts each
  changed object at its position in the cell's own list, which keeps its order.  (The
  objects of a list are taken to be distinct.)
\<close>

fun feed_loop :: "env \<Rightarrow> real \<Rightarrow> animal list \<Rightarrow> animal list \<times> real" where
  "feed_loop E fod [] = ([], fod)"
| "feed_loop E fod (animal # rest) =
     (if fod > 0
      then let (animal', eaten) = feeding E animal fod;
               (rest', fod') = feed_loop E (fod - eaten) rest
           in (animal' # rest', fod')
      else (animal # rest, fod))"

definition write_back :: "animal list \<Rightarrow> animal list \<Rightarrow> animal list" where
  "write_back changed xs =
     map (\<lambda>x. case find (\<lambda>u. aid u = aid x) changed of None \<Rightarrow> x | Some u \<Rightarrow> u) xs"

definition feed_herbivores :: "env \<Rightarrow> cell \<Rightarrow> cell" where
  "feed_herbivores E c =
     (let (fed, fod) = feed_loop E (fodder c) (sort_key (\<lambda>h. - fitness E h) (herbivores c))
      in c\<lparr>fodder := fod, herbivores := write_back fed (herbivores c)\<rparr>)"

text \<open>
  \<open>Carnivore.eat_herbivores\<close>.  \<open>hunt\<close> is the \<open>for\<close> loop, with the carnivore, its
  remaining appetite \<open>carn_appetite\<close> and the random source as the state; it returns the
  herbivores with the flags \<open>is_dead\<close> the loop has set.  Both \<open>break\<close>s leave the rest of
  the list untouched.  \<open>random.random()\<close> is called only when \<open>prob\<close> is not 1.
\<close>

fun hunt :: "env \<Rightarrow> animal \<Rightarrow> real \<Rightarrow> animal list \<Rightarrow> world \<Rightarrow> animal \<times> animal list \<times> world" where
  "hunt E self carn_appetite [] w = (self, [], w)"
| "hunt E self carn_appetite (herb # rest) w =
     (if carn_appetite \<le> 0 then (self, herb # rest, w)
      else if fitness E self \<le> fitness E herb then (self, herb # rest, w)
      else
        let prob = (if 0 < fitness E self - fitness E herb
                        \<and> fitness E self - fitness E herb < DeltaPhiMax (sp E (species self))
                    then (fitness E self - fitness E herb) / DeltaPhiMax (sp E (species self))
                    else 1);
            (kill, w1) = (if prob = 1 then (True, w)
                          else let (r, w') = random_random w in (r < prob, w'))
        in if kill
           then let (self', eaten) = feeding E self (min carn_appetite (weight herb));
                    (self'', rest', w2) = hunt E self' (carn_appetite - eaten) rest w1
                in (self'', herb\<lparr>is_dead := True\<rparr> # rest', w2)
           else let (self'', rest', w2) = hunt E self carn_appetite rest w1
                in (self'', herb # rest', w2))"

definition eat_herbivores :: "env \<Rightarrow> animal \<Rightarrow> animal list \<Rightarrow> world \<Rightarrow> animal \<times> animal list \<times> world" where
  "eat_herbivores E self herbs w =
     (let (self', flagged, w') = hunt E self (F (sp E (species self))) herbs w
      in (self', filter (\<lambda>herb. \<not> is_dead herb) flagged, w'))"

text \<open>
  \<open>Baseland.feed_carnivores\<close>: shuffle the carnivores, sort the herbivores by increasing
  fitness, and let each carnivore hunt the list the previous one has left.
\<close>

fun carnivores_hunt :: "env \<Rightarrow> animal list \<Rightarrow> animal list \<Rightarrow> world \<Rightarrow> animal list \<times> animal list \<times> world" where
  "carnivores_hunt E [] herbs w = ([], herbs, w)"
| "carnivores_hunt E (carn # rest) herbs w =
     (let (carn', herbs', w1) = eat_herbivores E carn herbs w;
          (rest', herbs'', w2) = carnivores_hunt E rest herbs' w1
      in (carn' # rest', herbs'', w2))"

definition feed_carnivores :: "env \<Rightarrow> cell \<Rightarrow> world \<Rightarrow> cell \<times> world" where
  "feed_carnivores E c w =
     (let (shuffled, w1) = random_shuffle (carnivores c) w;
          sorted_herbs = sort_key (\<lambda>h. fitness E h) (herbivores c);
          (carns, herbs, w2) = carnivores_hunt E shuffled sorted_herbs w1
      in (c\<lparr>herbivores := herbs, carnivores := carns\<rparr>, w2))"

definition feed :: "env \<Rightarrow> cell \<Rightarrow> world \<Rightarrow> cell \<times> world" where
  "feed E c w = feed_carnivores E (feed_herbivores E c) w"

text \<open>
  \<open>Baseland.birth\<close>.  \<open>birth_comp\<close> is the list comprehension of the inner function
  \<open>give_birth(animals)\<close>: it walks the list \<open>animals\<close>, calls
  \<open>animal.give_birth(len(animals))\<close> on each element and collects the children; the mothers
  are changed in place.  The first list argument is \<open>animals\<close> itself, whose length is
  read at every call.
\<close>

fun birth_comp :: "env \<Rightarrow> animal list \<Rightarrow> animal list \<Rightarrow> world \<Rightarrow> animal list \<times> animal list \<times> world" where
  "birth_comp E animals [] w = ([], [], w)"
| "birth_comp E animals (animal # rest) w =
     (let (child, animal', w1) = give_birth E animal (int (length animals)) w;
          (rest', children, w2) = birth_comp E animals rest w1
      in (animal' # rest',
          (case child of None \<Rightarrow> children | Some ch \<Rightarrow> ch # children), w2))"

definition birth :: "env \<Rightarrow> cell \<Rightarrow> world \<Rightarrow> cell \<times> world" where
  "birth E c w =
     (let (c1, w1) =
            (if length (herbivores c) > 1
             then let (hs, children, w') = birth_comp E (herbivores c) (herbivores c) w
                  in (c\<lparr>herbivores := hs @ children\<rparr>, w')
             else (c, w))
      in if length (carnivores c1) > 1
         then let (cs, children, w') = birth_comp E (carnivores c1) (carnivores c1) w1
              in (c1\<lparr>carnivores := cs @ children\<rparr>, w')
         else (c1, w1))"

definition aging :: "cell \<Rightarrow> cell" where
  "aging c = c\<lparr>herbivores := map aging_animal (herbivores c),
               carnivores := map aging_animal (carnivores c)\<rparr>"

definition lose_weight :: "env \<Rightarrow> cell \<Rightarrow> cell" where
  "lose_weight E c = c\<lparr>herbivores := map (lose_weight_animal E) (herbivores c),
                       carnivores := map (lose_weight_animal E) (carnivores c)\<rparr>"

text \<open>\<open>Baseland.die\<close>: keep the animals whose \<open>death()\<close> returns false.\<close>

fun survivors :: "env \<Rightarrow> animal list \<Rightarrow> world \<Rightarrow> animal list \<times> world" where
  "survivors E [] w = ([], w)"
| "survivors E (a # rest) w =
     (let (dies, w1) = death E a w;
          (rest', w2) = survivors E rest w1
      in (if dies then rest' else a # rest', w2))"

definition die :: "env \<Rightarrow> cell \<Rightarrow> world \<Rightarrow> cell \<times> world" where
  "die E c w =
     (let (hs, w1) = survivors E (herbivores c) w;
          (cs, w2) = survivors E (carnivores c) w1
      in (c\<lparr>herbivores := hs, carnivores := cs\<rparr>, w2))"

definition reset_fodder :: "env \<Rightarrow> cell \<Rightarrow> cell" where
  "reset_fodder E c = c\<lparr>fodder := f_max E (cls c)\<rparr>"

text \<open>\<open>Baseland.get_migrations\<close>: the animals, herbivores first, whose \<open>migrate()\<close> is true.\<close>

fun migrating :: "env \<Rightarrow> animal list \<Rightarrow> world \<Rightarrow> animal list \<times> world" where
  "migrating E [] w = ([], w)"
| "migrating E (a # rest) w =
     (let (goes, w1) = migrate_animal E a w;
          (rest', w2) = migrating E rest w1
      in (if goes then a # rest' else rest', w2))"

definition get_migrations :: "env \<Rightarrow> cell \<Rightarrow> world \<Rightarrow> animal list \<times> world" where
  "get_migrations E c w = migrating E (herbivores c @ carnivores c) w"

section \<open>Island operations\<close>

text \<open>
  \<open>Island.place_animals\<close>.  An entry of \<open>population\<close> is the pair of \<open>pop['loc']\<close> and
  \<open>pop['pop']\<close>.  An exception leaves the island as the calls before it have made it, so
  the result is the exception raised, if any, with the island and the random source at
  that moment.  \<open>self.island_map[loc]\<close> is evaluated once per animal.
\<close>

fun place_pop :: "env \<Rightarrow> coord \<Rightarrow> animal_dict list \<Rightarrow> island \<Rightarrow> world \<Rightarrow> error option \<times> island \<times> world" where
  "place_pop E loc [] isle w = (None, isle, w)"
| "place_pop E loc (animal # rest) isle w =
     (case island_map isle loc of
        None \<Rightarrow> (Some KeyError, isle, w)
      | Some c \<Rightarrow>
          (case add_animal E c animal w of
             Inl e \<Rightarrow> (Some e, isle, w)
           | Inr (c', w') \<Rightarrow>
               place_pop E loc rest (isle\<lparr>island_map := (island_map isle)(loc \<mapsto> c')\<rparr>) w'))"

fun place_animals :: "env \<Rightarrow> (coord \<times> animal_dict list) list \<Rightarrow> island \<Rightarrow> world \<Rightarrow> error option \<times> island \<times> world" where
  "place_animals E [] isle w = (None, isle, w)"
| "place_animals E ((loc, pop) # rest) isle w =
     (case place_pop E loc pop isle w of
        (Some e, isle', w') \<Rightarrow> (Some e, isle', w')
      | (None, isle', w') \<Rightarrow> place_animals E rest isle' w')"

text \<open>\<open>Island.num_animals\<close>: the sum of \<open>num_animals\<close> over the values of \<open>habitable_map\<close>.\<close>

definition cell_count :: "(coord \<rightharpoonup> cell) \<Rightarrow> coord \<Rightarrow> nat" where
  "cell_count im k = (case im k of None \<Rightarrow> 0 | Some c \<Rightarrow> num_animals c)"

definition island_num_animals :: "island \<Rightarrow> nat" where
  "island_num_animals isle = sum_list (map (cell_count (island_map isle)) (habitable_map isle))"

text \<open>
  \<open>Island.migrate\<close>.  A move is the triple of the origin, the destination and the animal.
  The state of the first loop is the dictionary of cells, the holding list \<open>migration\<close>,
  the random source, and a record, kept for the proofs only, of the moves carried out so
  far (each a \<open>place_animal\<close> followed by a \<open>remove_animal\<close>).  \<open>island_map[...]\<close> raises
  \<open>KeyError\<close> on a coordinate that is not a key.
\<close>

type_synonym move = "coord \<times> coord \<times> animal"

type_synonym cells = "coord \<rightharpoonup> cell"

definition move_animal :: "cells \<Rightarrow> coord \<Rightarrow> coord \<Rightarrow> animal \<Rightarrow> error + cells" where
  "move_animal im src dst animal =
     (case im dst of
        None \<Rightarrow> Inl KeyError
      | Some cd \<Rightarrow>
          let im1 = im(dst \<mapsto> place_animal cd animal) in
          (case im1 src of
             None \<Rightarrow> Inl KeyError
           | Some cs \<Rightarrow>
               (case remove_animal cs animal of
                  Inl e \<Rightarrow> Inl e
                | Inr cs' \<Rightarrow> Inr (im1(src \<mapsto> cs')))))"

fun migrate_animals :: "coord \<Rightarrow> animal list \<Rightarrow> cells \<times> move list \<times> move list \<times> world
    \<Rightarrow> error + (cells \<times> move list \<times> move list \<times> world)" where
  "migrate_animals coord [] st = Inr st"
| "migrate_animals coord (animal # rest) (im, migration, moved, w) =
     (case random_choice move_direction_map w of
        Inl e \<Rightarrow> Inl e
      | Inr (direction, w') \<Rightarrow>
          let new_coord = coord_add coord direction in
          (case im new_coord of
             None \<Rightarrow> Inl KeyError
           | Some nc \<Rightarrow>
               if is_habitable nc then
                 if direction = (-1, 0) \<or> direction = (0, -1) then
                   (case move_animal im coord new_coord animal of
                      Inl e \<Rightarrow> Inl e
                    | Inr im' \<Rightarrow>
                        migrate_animals coord rest
                          (im', migration, moved @ [(coord, new_coord, animal)], w'))
                 else migrate_animals coord rest
                        (im, migration @ [(coord, new_coord, animal)], moved, w')
               else migrate_animals coord rest (im, migration, moved, w')))"

fun migrate_cells :: "env \<Rightarrow> coord list \<Rightarrow> cells \<times> move list \<times> move list \<times> world
    \<Rightarrow> error + (cells \<times> move list \<times> move list \<times> world)" where
  "migrate_cells E [] st = Inr st"
| "migrate_cells E (coord # rest) (im, migration, moved, w) =
     (case im coord of
        None \<Rightarrow> Inl KeyError
      | Some landtypes \<Rightarrow>
          let (migrants, w') = get_migrations E landtypes w in
          (case migrate_animals coord migrants (im, migration, moved, w') of
             Inl e \<Rightarrow> Inl e
           | Inr st' \<Rightarrow> migrate_cells E rest st'))"

fun apply_migration :: "move list \<Rightarrow> cells \<times> move list \<Rightarrow> error + (cells \<times> move list)" where
  "apply_migration [] st = Inr st"
| "apply_migration ((src, dst, animal) # rest) (im, moved) =
     (case move_animal im src dst animal of
        Inl e \<Rightarrow> Inl e
      | Inr im' \<Rightarrow> apply_migration rest (im', moved @ [(src, dst, animal)]))"

definition migrate :: "env \<Rightarrow> island \<Rightarrow> world \<Rightarrow> error + (island \<times> move list \<times> world)" where
  "migrate E isle w =
     (case migrate_cells E (habitable_map isle) (island_map isle, [], [], w) of
        Inl e \<Rightarrow> Inl e
      | Inr (im, migration, moved, w') \<Rightarrow>
          (case apply_migration migration (im, moved) of
             Inl e \<Rightarrow> Inl e
           | Inr (im', moved') \<Rightarrow> Inr (isle\<lparr>island_map := im'\<rparr>, moved', w')))"

text \<open>
  \<open>Island.step\<close>: reset, feed and birth in every habitable cell, then the migration, then
  aging, weight loss and death in every habitable cell.
\<close>

fun first_phase :: "env \<Rightarrow> coord list \<Rightarrow> cells \<Rightarrow> world \<Rightarrow> error + (cells \<times> world)" where
  "first_phase E [] im w = Inr (im, w)"
| "first_phase E (k # rest) im w =
     (case im k of
        None \<Rightarrow> Inl KeyError
      | Some c \<Rightarrow>
          let (c1, w1) = feed E (reset_fodder E c) w;
              (c2, w2) = birth E c1 w1
          in first_phase E rest (im(k \<mapsto> c2)) w2)"

fun last_phase :: "env \<Rightarrow> coord list \<Rightarrow> cells \<Rightarrow> world \<Rightarrow> error + (cells \<times> world)" where
  "last_phase E [] im w = Inr (im, w)"
| "last_phase E (k # rest) im w =
     (case im k of
        None \<Rightarrow> Inl KeyError
      | Some c \<Rightarrow>
          let (c1, w1) = die E (lose_weight E (aging c)) w
          in last_phase E rest (im(k \<mapsto> c1)) w1)"

definition step :: "env \<Rightarrow> island \<Rightarrow> world \<Rightarrow> error + (island \<times> world)" where
  "step E isle w =
     (case first_phase E (habitable_map isle) (island_map isle) w of
        Inl e \<Rightarrow> Inl e
      | Inr (im1, w1) \<Rightarrow>
          (case migrate E (isle\<lparr>island_map := im1\<rparr>) w1 of
             Inl e \<Rightarrow> Inl e
           | Inr (isle2, moved, w2) \<Rightarrow>
               (case last_phase E (habitable_map isle2) (island_map isle2) w2 of
                  Inl e \<Rightarrow> Inl e
                | Inr (im3, w3) \<Rightarrow> Inr (isle2\<lparr>island_map := im3\<rparr>, w3))))"

section \<open>Bulk parameter update (\<open>set_params\<close>)\<close>

text \<open>
  The values a parameter dictionary can hold, by their Python type, and the attributes of
  a class as a dictionary from names to values.  \<open>Baseland.set_params\<close> first checks every
  entry (the key against \<open>cls.default_params.keys()\<close>, the type of the value against
  \<open>float\<close> and \<open>int\<close>, so that a \<open>bool\<close> is refused) and only then sets the attributes, in
  the order of the dictionary.  The result is the exception raised, if any, and the
  attributes of the class after the call.
\<close>

datatype pyval = PyInt int | PyFloat real | PyBool bool | PyStr string | PyNone

fun is_float_or_int :: "pyval \<Rightarrow> bool" where
  "is_float_or_int (PyInt _) = True"
| "is_float_or_int (PyFloat _) = True"
| "is_float_or_int _ = False"

fun check_params :: "string list \<Rightarrow> (string \<times> pyval) list \<Rightarrow> error option" where
  "check_params keys [] = None"
| "check_params keys ((key, val) # rest) =
     (if key \<notin> set keys then Some (ValueError ''Invalid parameter'')
      else if \<not> is_float_or_int val then Some (ValueError ''Value is not a float or an integer.'')
      else check_params keys rest)"

fun setattrs :: "(string \<times> pyval) list \<Rightarrow> (string \<rightharpoonup> pyval) \<Rightarrow> (string \<rightharpoonup> pyval)" where
  "setattrs [] attrs = attrs"
| "setattrs ((key, val) # rest) attrs = setattrs rest (attrs(key \<mapsto> val))"

definition set_params :: "string list \<Rightarrow> (string \<times> pyval) list \<Rightarrow> (string \<rightharpoonup> pyval)
    \<Rightarrow> error option \<times> (string \<rightharpoonup> pyval)" where
  "set_params keys params attrs =
     (case check_params keys params of
        Some e \<Rightarrow> (Some e, attrs)
      | None \<Rightarrow> (None, setattrs params attrs))"

text \<open>The keys of \<open>default_params\<close> of the landscape classes and of the two species.\<close>

definition landscape_keys :: "string list" where
  "landscape_keys = [''f_max'']"

definition herbivore_keys :: "string list" where
  "herbivore_keys = [''w_birth'', ''sigma_birth'', ''beta'', ''eta'', ''a_half'', ''phi_age'',
     ''w_half'', ''phi_weight'', ''mu'', ''gamma'', ''zeta'', ''xi'', ''omega'', ''F'']"

definition carnivore_keys :: "string list" where
  "carnivore_keys = herbivore_keys @ [''DeltaPhiMax'']"

section \<open>Properties of island states\<close>

text \<open>
  \<open>water_cells\<close> is the part of the dictionary of cells that holds the water cells, and an
  island keeps its water empty when none of them holds an animal.
\<close>

definition water_cells :: "cells \<Rightarrow> cells" where
  "water_cells im =
     (\<lambda>k. case im k of None \<Rightarrow> None | Some c \<Rightarrow> if cls c = Water then Some c else None)"

definition water_empty :: "island \<Rightarrow> bool" where
  "water_empty isle =
     (\<forall>k c. water_cells (island_map isle) k = Some c \<longrightarrow> herbivores c = [] \<and> carnivores c = [])"

text \<open>
  The geography of the example in the module documentation of \<open>island.py\<close> and of the
  tests, \<open>"WWW\nWLW\nWWW"\<close>: one lowland cell at \<open>(2, 2)\<close> inside a ring of water.  And a
  random source whose oracle answers 0 everywhere, with no object allocated yet.
\<close>

definition example_geography :: string where
  "example_geography = ''WWW'' @ [CHR 0x0A] @ ''WLW'' @ [CHR 0x0A] @ ''WWW''"

definition example_island :: "env \<Rightarrow> island" where
  "example_island E =
     \<lparr>geography = example_geography,
      island_map = map_of
        [((1, 1), new_cell E Water), ((1, 2), new_cell E Water), ((1, 3), new_cell E Water),
         ((2, 1), new_cell E Water), ((2, 2), new_cell E Lowland), ((2, 3), new_cell E Water),
         ((3, 1), new_cell E Water), ((3, 2), new_cell E Water), ((3, 3), new_cell E Water)],
      habitable_map = [(2, 2)]\<rparr>"

definition world0 :: world where
  "world0 = \<lparr>floats = (\<lambda>_. 0), ints = (\<lambda>_. 0), gausses = (\<lambda>_. 0), pos = 0, next_aid = 0\<rparr>"

section \<open>The birth phase as the specification words it\<close>

text \<open>
  Section 4.2 of the specification, for one species: if the count of the species is above
  1, every agent attempts \<open>give_birth(n)\<close> with \<open>n\<close> the count before any birth of the
  phase, and the newborns are appended after all attempts have been evaluated.
  \<open>birth_attempts\<close> evaluates the attempts of the agents in turn for a fixed \<open>n\<close> and
  returns the agents after their attempts, the newborns and the random source.
\<close>

fun birth_attempts :: "env \<Rightarrow> int \<Rightarrow> animal list \<Rightarrow> world \<Rightarrow> animal list \<times> animal list \<times> world" where
  "birth_attempts E n [] w = ([], [], w)"
| "birth_attempts E n (a # rest) w =
     (let (child, a', w1) = give_birth E a n w;
          (rest', children, w2) = birth_attempts E n rest w1
      in (a' # rest', (case child of None \<Rightarrow> children | Some ch \<Rightarrow> ch # children), w2))"

definition species_birth :: "env \<Rightarrow> animal list \<Rightarrow> world \<Rightarrow> animal list \<times> world" where
  "species_birth E agents w =
     (if length agents > 1
      then let (agents', newborns, w') = birth_attempts E (int (length agents)) agents w
           in (agents' @ newborns, w')
      else (agents, w))"

section \<open>The hunt of one carnivore as the specification words it\<close>

text \<open>
  Section 4.2 of the specification, step 2b, for one carnivore and the ascending list of
  herbivores.  The kill probability is 0 if the carnivore is not fitter than the
  herbivore, 1 if the fitness gap is at least \<open>DeltaPhiMax\<close>, and the gap divided by
  \<open>DeltaPhiMax\<close> in between.  An attempt with probability \<open>p\<close> succeeds for certain when
  \<open>p = 1\<close> (nothing is drawn), and otherwise when the uniform sample drawn is below \<open>p\<close>.
  On success the carnivore consumes the smaller of its remaining appetite and the weight
  of the herbivore, gains \<open>beta\<close> times that amount, the herbivore is flagged dead and the
  appetite goes down by the amount consumed.
\<close>

definition spec_kill_probability :: "env \<Rightarrow> animal \<Rightarrow> animal \<Rightarrow> real" where
  "spec_kill_probability E carn herb =
     (if fitness E carn \<le> fitness E herb then 0
      else if fitness E carn - fitness E herb \<ge> DeltaPhiMax (sp E (species carn)) then 1
      else (fitness E carn - fitness E herb) / DeltaPhiMax (sp E (species carn)))"

definition attempt :: "real \<Rightarrow> world \<Rightarrow> bool \<times> world" where
  "attempt p w =
     (if p = 1 then (True, w)
      else let (r, w') = random_random w in (r < p, w'))"

fun spec_hunt :: "env \<Rightarrow> animal \<Rightarrow> real \<Rightarrow> animal list \<Rightarrow> world \<Rightarrow> animal \<times> animal list \<times> world" where
  "spec_hunt E carn appetite [] w = (carn, [], w)"
| "spec_hunt E carn appetite (herb # rest) w =
     (if appetite \<le> 0 then (carn, herb # rest, w)
      else if fitness E carn \<le> fitness E herb then (carn, herb # rest, w)
      else
        let (success, w1) = attempt (spec_kill_probability E carn herb) w
        in if success
           then let consumed = min appetite (weight herb);
                    carn' = carn\<lparr>weight := weight carn + beta (sp E (species carn)) * consumed\<rparr>;
                    (carn'', rest', w2) = spec_hunt E carn' (appetite - consumed) rest w1
                in (carn'', herb\<lparr>is_dead := True\<rparr> # rest', w2)
           else let (carn'', rest', w2) = spec_hunt E carn appetite rest w1
                in (carn'', herb # rest', w2))"

section \<open>Island construction rejects invalid geographies\<close>

lemma split_nl_nonempty: "split_nl g \<noteq> []"
  by (induction g) (auto split: list.splits)

lemma concat_split_nl: "concat (split_nl g) = filter (\<lambda>c. c \<noteq> CHR 0x0A) g"
  by (induction g) (auto split: list.splits)

lemma remdups_single_iff: "remdups xs = [c] \<longleftrightarrow> xs \<noteq> [] \<and> set xs = {c}"
proof
  assume h: "remdups xs = [c]"
  then have "set (remdups xs) = {c}" by simp
  then show "xs \<noteq> [] \<and> set xs = {c}" by auto
next
  assume h: "xs \<noteq> [] \<and> set xs = {c}"
  have "distinct (remdups xs)" by simp
  moreover have "set (remdups xs) = {c}" using h by simp
  ultimately have "length (remdups xs) = 1"
    by (metis distinct_card card_1_singleton_iff One_nat_def is_singletonI is_singleton_altdef)
  then obtain y where "remdups xs = [y]" by (cases "remdups xs") auto
  with \<open>set (remdups xs) = {c}\<close> show "remdups xs = [c]" by auto
qed

lemma length_remdups_one_iff: "length (remdups xs) = 1 \<longleftrightarrow> xs \<noteq> [] \<and> (\<forall>x\<in>set xs. \<forall>y\<in>set xs. x = y)"
proof
  assume "length (remdups xs) = 1"
  then obtain c where "remdups xs = [c]" by (cases "remdups xs") auto
  then show "xs \<noteq> [] \<and> (\<forall>x\<in>set xs. \<forall>y\<in>set xs. x = y)" by (auto simp: remdups_single_iff)
next
  assume h: "xs \<noteq> [] \<and> (\<forall>x\<in>set xs. \<forall>y\<in>set xs. x = y)"
  then obtain c where "c \<in> set xs" by (cases xs) auto
  with h have "set xs = {c}" by auto
  with h have "remdups xs = [c]" by (simp add: remdups_single_iff)
  then show "length (remdups xs) = 1" by simp
qed

lemma make_cells_ok:
  "(\<forall>(k, y)\<in>set l. cell_map y \<noteq> None) \<Longrightarrow> \<exists>cs. make_cells E l = Inr cs \<and> map fst cs = map fst l"
  by (induction l) (auto split: option.splits sum.splits)

lemma layout_chars: "snd ` set (layout g) \<subseteq> set (filter (\<lambda>c. c \<noteq> CHR 0x0A) g)"
proof -
  have "snd ` set (layout g) \<subseteq> set (concat (split_nl g))"
    unfolding layout_def by (auto simp: enumerate_eq_zip dest!: set_zip_rightD)
  then show ?thesis by (simp add: concat_split_nl)
qed


lemma cell_map_None_iff: "cell_map c = None \<longleftrightarrow> c \<notin> {CHR ''L'', CHR ''W'', CHR ''D'', CHR ''H''}"
  by (simp add: cell_map_def)

lemma unknown_terrain_iff:
  "list_ex (\<lambda>cell_type. cell_map cell_type = None) (filter (\<lambda>c. c \<noteq> CHR 0x0A) g) \<longleftrightarrow> unknown_terrain g"
  unfolding unknown_terrain_def list_ex_iff cell_map_None_iff by auto

lemma get_distinct_eq_W: "get_distinct xs = ''W'' \<longleftrightarrow> xs \<noteq> [] \<and> set xs = {CHR ''W''}"
  using remdups_single_iff[of xs "CHR ''W''"] by (simp add: get_distinct_def)

lemma get_distinct_W: "get_distinct xs \<noteq> ''W'' \<longleftrightarrow> xs = [] \<or> (\<exists>c\<in>set xs. c \<noteq> CHR ''W'')"
proof -
  have "xs \<noteq> [] \<Longrightarrow> (set xs = {CHR ''W''}) = (\<forall>c\<in>set xs. c = CHR ''W'')"
    by (cases xs) auto
  then show ?thesis unfolding get_distinct_eq_W by blast
qed

lemma rows_unequal_iff:
  "length (remdups (map length (split_nl g))) = Suc 0 \<longleftrightarrow> \<not> rows_unequal g"
  using length_remdups_one_iff[of "map length (split_nl g)"] split_nl_nonempty[of g]
  unfolding rows_unequal_def by auto

lemma validate_map_known:
  "\<not> unknown_terrain g \<Longrightarrow> \<not> rows_unequal g \<Longrightarrow>
   validate_map g =
     (let geo_split = split_nl g in
        if get_distinct (hd geo_split) \<noteq> ''W''
        then Inl (ValueError ''Top row is not all water'')
        else if get_distinct (last geo_split) \<noteq> ''W''
        then Inl (ValueError ''Bottom row is not all water'')
        else if list_ex (\<lambda>line. line = []) geo_split then Inl IndexError
        else if get_distinct (map hd geo_split) \<noteq> ''W''
        then Inl (ValueError ''Leftmost column is not all water'')
        else if get_distinct (map last geo_split) \<noteq> ''W''
        then Inl (ValueError ''Rightmost column is not all water'')
        else Inr ())"
proof -
  assume k: "\<not> unknown_terrain g" and u: "\<not> rows_unequal g"
  have a: "list_ex (\<lambda>cell_type. cell_map cell_type = None)
             (filter (\<lambda>c. c \<noteq> CHR 0x0A) g) = False"
    using k by (simp add: unknown_terrain_iff)
  have b: "(length (remdups (map length (split_nl g))) \<noteq> 1) = False"
    using u rows_unequal_iff[of g] by simp
  have c: "(split_nl g = []) = False"
    using split_nl_nonempty[of g] by simp
  show ?thesis
    by (simp only: validate_map_def Let_def a b c if_False)
qed

lemma rows_nonempty:
  assumes "\<not> rows_unequal g" "get_distinct (hd (split_nl g)) = ''W''"
  shows "\<not> list_ex (\<lambda>line. line = []) (split_nl g)"
proof -
  have ne: "split_nl g \<noteq> []" by (rule split_nl_nonempty)
  have hdne: "hd (split_nl g) \<noteq> []" using assms(2) get_distinct_W[of "hd (split_nl g)"] by auto
  have "\<And>r. r \<in> set (split_nl g) \<Longrightarrow> length r = length (hd (split_nl g))"
    using assms(1) ne unfolding rows_unequal_def by (metis list.set_sel(1))
  then have "\<And>r. r \<in> set (split_nl g) \<Longrightarrow> r \<noteq> []" using hdne by fastforce
  then show ?thesis by (auto simp: list_ex_iff)
qed


lemma validate_unknown:
  "unknown_terrain g \<Longrightarrow> validate_map g = Inl (ValueError ''Invalid cell type'')"
  by (simp add: validate_map_def unknown_terrain_iff)

lemma validate_unequal:
  "\<not> unknown_terrain g \<Longrightarrow> rows_unequal g \<Longrightarrow>
   validate_map g = Inl (ValueError ''Not all rows of the Island are of the same size.'')"
  by (simp add: validate_map_def unknown_terrain_iff rows_unequal_iff Let_def)

lemma validate_border:
  assumes "\<not> unknown_terrain g" "\<not> rows_unequal g" "border_not_water g"
  shows "\<exists>msg\<in>border_messages. validate_map g = Inl (ValueError msg)"
proof -
  let ?rows = "split_nl g"
  note vm = validate_map_known[OF assms(1,2)]
  show ?thesis
  proof (cases "get_distinct (hd ?rows) = ''W''")
    case False
    then show ?thesis by (simp add: vm Let_def border_messages_def)
  next
    case top: True
    note noidx = rows_nonempty[OF assms(2) top]
    have topW: "\<forall>c\<in>set (hd ?rows). c = CHR ''W''"
      using top get_distinct_W[of "hd ?rows"] by auto
    show ?thesis
    proof (cases "get_distinct (last ?rows) = ''W''")
      case False
      then show ?thesis using top by (simp add: vm Let_def border_messages_def)
    next
      case bot: True
      then have botW: "\<forall>c\<in>set (last ?rows). c = CHR ''W''"
        using get_distinct_W[of "last ?rows"] by auto
      from assms(3) topW botW obtain r where r: "r \<in> set ?rows" "r \<noteq> []"
        "hd r \<noteq> CHR ''W'' \<or> last r \<noteq> CHR ''W''"
        unfolding border_not_water_def Let_def by auto
      show ?thesis
      proof (cases "get_distinct (map hd ?rows) = ''W''")
        case False
        then show ?thesis using top bot noidx by (simp add: vm Let_def border_messages_def)
      next
        case left: True
        then have "hd r = CHR ''W''" using r(1) get_distinct_W[of "map hd ?rows"] by auto
        with r have "last r \<noteq> CHR ''W''" by simp
        then have "get_distinct (map last ?rows) \<noteq> ''W''"
          using r(1) get_distinct_W[of "map last ?rows"] by auto
        then show ?thesis using top bot noidx left by (simp add: vm Let_def border_messages_def)
      qed
    qed
  qed
qed

lemma validate_no_IndexError: "validate_map g \<noteq> Inl IndexError"
proof (cases "unknown_terrain g")
  case True
  then show ?thesis by (simp add: validate_unknown)
next
  case known: False
  show ?thesis
  proof (cases "rows_unequal g")
    case True
    then show ?thesis using known by (simp add: validate_unequal)
  next
    case False
    note vm = validate_map_known[OF known False]
    show ?thesis
    proof (cases "get_distinct (hd (split_nl g)) = ''W''")
      case True
      from rows_nonempty[OF False True] show ?thesis by (simp add: vm Let_def)
    next
      case False
      then show ?thesis by (simp add: vm Let_def)
    qed
  qed
qed

lemma validate_Inr_known: "validate_map g = Inr u \<Longrightarrow> \<not> unknown_terrain g"
  using validate_unknown[of g] by auto

lemma build_island_ok:
  assumes "\<not> unknown_terrain g"
  shows "\<exists>isle. build_island E g = Inr isle"
proof -
  have "\<forall>(k, y)\<in>set (layout g). cell_map y \<noteq> None"
    using layout_chars[of g] assms unfolding unknown_terrain_def cell_map_None_iff by fastforce
  from make_cells_ok[OF this, of E] show ?thesis by (auto simp: build_island_def)
qed

lemma validate_map_result:
  "validate_map g = Inr () \<or> (\<exists>msg. validate_map g = Inl (ValueError msg))"
proof (cases "unknown_terrain g")
  case True
  then show ?thesis by (simp add: validate_unknown)
next
  case known: False
  show ?thesis
  proof (cases "rows_unequal g")
    case True
    then show ?thesis using known by (simp add: validate_unequal)
  next
    case False
    note vm = validate_map_known[OF known False]
    show ?thesis
    proof (cases "get_distinct (hd (split_nl g)) = ''W''")
      case True
      from rows_nonempty[OF False True] show ?thesis by (simp add: vm Let_def)
    next
      case False
      then show ?thesis by (simp add: vm Let_def)
    qed
  qed
qed

lemma Island_init_cases:
  "(\<exists>msg. Island_init E g = Inl (ValueError msg)) \<or> (\<exists>isle. Island_init E g = Inr isle)"
proof (cases "validate_map g")
  case (Inl e)
  then show ?thesis using validate_map_result[of g] by (auto simp: Island_init_def)
next
  case (Inr u)
  then show ?thesis using build_island_ok[OF validate_Inr_known[OF Inr]] by (auto simp: Island_init_def)
qed

text \<open>
  Claim C8.  Island construction never produces an island from a geography with an unknown
  terrain character, with rows of unequal length or with a border cell that is not water:
  it raises \<open>ValueError\<close>, with the message of the first check that fails (unknown
  character, then shape, then the four borders).  For every geography the constructor
  either raises \<open>ValueError\<close> or returns an island; the lookups \<open>geo_split[0]\<close>,
  \<open>line[0]\<close>, \<open>line[-1]\<close> and \<open>cell_map[y]\<close> never fail.
\<close>

theorem island_construction_rejects:
  "(unknown_terrain g \<longrightarrow> Island_init E g = Inl (ValueError ''Invalid cell type''))
   \<and> (\<not> unknown_terrain g \<and> rows_unequal g \<longrightarrow>
        Island_init E g = Inl (ValueError ''Not all rows of the Island are of the same size.''))
   \<and> (\<not> unknown_terrain g \<and> \<not> rows_unequal g \<and> border_not_water g \<longrightarrow>
        (\<exists>msg\<in>border_messages. Island_init E g = Inl (ValueError msg)))
   \<and> ((\<exists>msg. Island_init E g = Inl (ValueError msg)) \<or> (\<exists>isle. Island_init E g = Inr isle))"
proof (intro conjI impI)
  assume "unknown_terrain g"
  then show "Island_init E g = Inl (ValueError ''Invalid cell type'')"
    by (simp add: Island_init_def validate_unknown)
next
  assume "\<not> unknown_terrain g \<and> rows_unequal g"
  then show "Island_init E g = Inl (ValueError ''Not all rows of the Island are of the same size.'')"
    by (simp add: Island_init_def validate_unequal)
next
  assume "\<not> unknown_terrain g \<and> \<not> rows_unequal g \<and> border_not_water g"
  then obtain msg where "msg \<in> border_messages" "validate_map g = Inl (ValueError msg)"
    using validate_border[of g] by blast
  then show "\<exists>msg\<in>border_messages. Island_init E g = Inl (ValueError msg)"
    by (auto simp: Island_init_def)
next
  show "(\<exists>msg. Island_init E g = Inl (ValueError msg)) \<or> (\<exists>isle. Island_init E g = Inr isle)"
    by (rule Island_init_cases)
qed

theorem island_construction_rejects_witness:
  "(unknown_terrain (''WWW'' @ [CHR 0x0A] @ ''WXW'' @ [CHR 0x0A] @ ''WWW'')
      \<and> Island_init default_env (''WWW'' @ [CHR 0x0A] @ ''WXW'' @ [CHR 0x0A] @ ''WWW'')
          = Inl (ValueError ''Invalid cell type''))
   \<and> (\<not> unknown_terrain (''WWW'' @ [CHR 0x0A] @ ''WLLW'' @ [CHR 0x0A] @ ''WWW'')
      \<and> rows_unequal (''WWW'' @ [CHR 0x0A] @ ''WLLW'' @ [CHR 0x0A] @ ''WWW'')
      \<and> Island_init default_env (''WWW'' @ [CHR 0x0A] @ ''WLLW'' @ [CHR 0x0A] @ ''WWW'')
          = Inl (ValueError ''Not all rows of the Island are of the same size.''))
   \<and> (\<not> unknown_terrain (''WWW'' @ [CHR 0x0A] @ ''WLL'' @ [CHR 0x0A] @ ''WWW'')
      \<and> \<not> rows_unequal (''WWW'' @ [CHR 0x0A] @ ''WLL'' @ [CHR 0x0A] @ ''WWW'')
      \<and> border_not_water (''WWW'' @ [CHR 0x0A] @ ''WLL'' @ [CHR 0x0A] @ ''WWW'')
      \<and> (\<exists>msg\<in>border_messages.
            Island_init default_env (''WWW'' @ [CHR 0x0A] @ ''WLL'' @ [CHR 0x0A] @ ''WWW'')
              = Inl (ValueError msg)))"
proof -
  have u1: "unknown_terrain (''WWW'' @ [CHR 0x0A] @ ''WXW'' @ [CHR 0x0A] @ ''WWW'')"
    by (simp add: unknown_terrain_def)
  have k2: "\<not> unknown_terrain (''WWW'' @ [CHR 0x0A] @ ''WLLW'' @ [CHR 0x0A] @ ''WWW'')"
    by (simp add: unknown_terrain_def)
  have r2: "rows_unequal (''WWW'' @ [CHR 0x0A] @ ''WLLW'' @ [CHR 0x0A] @ ''WWW'')"
    by (auto simp add: rows_unequal_def)
  have k3: "\<not> unknown_terrain (''WWW'' @ [CHR 0x0A] @ ''WLL'' @ [CHR 0x0A] @ ''WWW'')"
    by (simp add: unknown_terrain_def)
  have r3: "\<not> rows_unequal (''WWW'' @ [CHR 0x0A] @ ''WLL'' @ [CHR 0x0A] @ ''WWW'')"
    by (simp add: rows_unequal_def)
  have b3: "border_not_water (''WWW'' @ [CHR 0x0A] @ ''WLL'' @ [CHR 0x0A] @ ''WWW'')"
    by (simp add: border_not_water_def)
  show ?thesis
    using island_construction_rejects[of "''WWW'' @ [CHR 0x0A] @ ''WXW'' @ [CHR 0x0A] @ ''WWW''" default_env]
      island_construction_rejects[of "''WWW'' @ [CHR 0x0A] @ ''WLLW'' @ [CHR 0x0A] @ ''WWW''" default_env]
      island_construction_rejects[of "''WWW'' @ [CHR 0x0A] @ ''WLL'' @ [CHR 0x0A] @ ''WWW''" default_env]
      u1 k2 r2 k3 r3 b3
    by blast
qed

section \<open>Habitable cells of a constructed island are interior\<close>

lemma in_layout:
  "(k, y) \<in> set (layout g) \<longleftrightarrow>
   (\<exists>i j. i < length (split_nl g) \<and> j < length (split_nl g ! i) \<and>
          k = (int i + 1, int j + 1) \<and> y = split_nl g ! i ! j)"
  unfolding layout_def by (auto simp: in_set_enumerate_eq image_iff Bex_def)

lemma make_cells_rel:
  "make_cells E l = Inr cs \<Longrightarrow> (k, c) \<in> set cs \<Longrightarrow>
   \<exists>y ld. (k, y) \<in> set l \<and> cell_map y = Some ld \<and> c = new_cell E ld"
proof (induction l arbitrary: cs)
  case Nil
  then show ?case by simp
next
  case (Cons a l)
  obtain k0 y0 where a: "a = (k0, y0)" by (cases a)
  from Cons.prems(1) a obtain ld cs' where
    ld: "cell_map y0 = Some ld" and cs': "make_cells E l = Inr cs'" and
    cs: "cs = (k0, new_cell E ld) # cs'"
    by (auto split: option.splits sum.splits)
  show ?case
  proof (cases "(k, c) = (k0, new_cell E ld)")
    case True
    then show ?thesis using a ld by auto
  next
    case False
    then have "(k, c) \<in> set cs'" using Cons.prems(2) cs by auto
    from Cons.IH[OF cs' this] show ?thesis by auto
  qed
qed

lemma make_cells_keys: "make_cells E l = Inr cs \<Longrightarrow> map fst cs = map fst l"
  by (induction l arbitrary: cs) (auto split: option.splits sum.splits)

lemma validate_Inr:
  assumes "validate_map g = Inr u"
  shows "\<not> unknown_terrain g" "\<not> rows_unequal g"
    "get_distinct (hd (split_nl g)) = ''W''" "get_distinct (last (split_nl g)) = ''W''"
    "get_distinct (map hd (split_nl g)) = ''W''" "get_distinct (map last (split_nl g)) = ''W''"
proof -
  show k: "\<not> unknown_terrain g" using assms validate_unknown[of g] by auto
  show r: "\<not> rows_unequal g" using assms k validate_unequal[of g] by auto
  note vm = validate_map_known[OF k r]
  show t: "get_distinct (hd (split_nl g)) = ''W''"
    using assms by (auto simp: vm Let_def split: if_splits)
  show b: "get_distinct (last (split_nl g)) = ''W''"
    using assms t by (auto simp: vm Let_def split: if_splits)
  show l: "get_distinct (map hd (split_nl g)) = ''W''"
    using assms t b by (auto simp: vm Let_def split: if_splits)
  show "get_distinct (map last (split_nl g)) = ''W''"
    using assms t b l by (auto simp: vm Let_def split: if_splits)
qed

lemma habitable_neighbours:
  assumes init: "Island_init E g = Inr isle"
    and hab: "coord \<in> set (habitable_map isle)"
    and dir: "d \<in> set move_direction_map"
  shows "coord_add coord d \<in> dom (island_map isle)"
proof -
  let ?rows = "split_nl g"
  let ?n = "length ?rows"
  let ?m = "length (hd ?rows)"
  obtain u where v: "validate_map g = Inr u" and bi: "build_island E g = Inr isle"
    using init by (auto simp: Island_init_def split: sum.splits)
  note V = validate_Inr[OF v]
  obtain cs where mc: "make_cells E (layout g) = Inr cs"
    and im: "island_map isle = map_of cs"
    and hm: "habitable_map isle = map fst (filter (\<lambda>(k, c). is_habitable c) cs)"
    using bi by (auto simp: build_island_def split: sum.splits)
  have ne: "?rows \<noteq> []" by (rule split_nl_nonempty)
  have len: "\<And>i. i < ?n \<Longrightarrow> length (?rows ! i) = ?m"
    using V(2) ne unfolding rows_unequal_def by (metis list.set_sel(1) nth_mem)
  have mpos: "0 < ?m" using V(3) unfolding get_distinct_eq_W by auto
  have npos: "0 < ?n" using ne by simp
  have dom: "dom (island_map isle) = {(int i + 1, int j + 1) | i j. i < ?n \<and> j < ?m}"
  proof -
    have "dom (island_map isle) = fst ` set (layout g)"
      unfolding im dom_map_of_conv_image_fst using make_cells_keys[OF mc]
      by (metis set_map)
    also have "\<dots> = {(int i + 1, int j + 1) | i j. i < ?n \<and> j < ?m}"
      using len by (auto simp: image_iff in_layout Bex_def)
    finally show ?thesis .
  qed
  from hab hm obtain c where kc: "(coord, c) \<in> set cs" and hc: "is_habitable c" by auto
  from make_cells_rel[OF mc kc] obtain y ld where
    yl: "(coord, y) \<in> set (layout g)" and cm: "cell_map y = Some ld" and c: "c = new_cell E ld"
    by blast
  from hc c have "ld \<noteq> Water" by (simp add: new_cell_def)
  with cm have yW: "y \<noteq> CHR ''W''" by (auto simp: cell_map_def split: if_splits)
  from yl obtain i j where i: "i < ?n" and j: "j < length (?rows ! i)"
    and co: "coord = (int i + 1, int j + 1)" and y: "y = ?rows ! i ! j"
    unfolding in_layout by blast
  have jm: "j < ?m" using j len[OF i] by simp
  have i0: "i \<noteq> 0"
  proof
    assume "i = 0"
    then have "y \<in> set (hd ?rows)" using y j ne by (simp add: hd_conv_nth)
    then show False using V(3) yW unfolding get_distinct_eq_W by auto
  qed
  have il: "i \<noteq> ?n - 1"
  proof
    assume "i = ?n - 1"
    then have "y \<in> set (last ?rows)" using y j ne by (simp add: last_conv_nth)
    then show False using V(4) yW unfolding get_distinct_eq_W by auto
  qed
  have rne: "?rows ! i \<noteq> []" using j by auto
  have j0: "j \<noteq> 0"
  proof
    assume "j = 0"
    then have "y = hd (?rows ! i)" using y rne by (simp add: hd_conv_nth)
    then have "y \<in> set (map hd ?rows)" using i by auto
    then show False using V(5) yW unfolding get_distinct_eq_W by auto
  qed
  have jl: "j \<noteq> ?m - 1"
  proof
    assume "j = ?m - 1"
    then have "y = last (?rows ! i)" using y rne len[OF i] by (simp add: last_conv_nth)
    then have "y \<in> set (map last ?rows)" using i by auto
    then show False using V(6) yW unfolding get_distinct_eq_W by auto
  qed
  from dir have "d = (-1, 0) \<or> d = (1, 0) \<or> d = (0, -1) \<or> d = (0, 1)"
    by (auto simp: move_direction_map_def)
  then show ?thesis
  proof (elim disjE)
    assume "d = (-1, 0)"
    then have "coord_add coord d = (int (i - 1) + 1, int j + 1)"
      using co i0 by (simp add: coord_add_def)
    moreover have "i - 1 < ?n" using i by simp
    ultimately show ?thesis unfolding dom using jm by blast
  next
    assume "d = (1, 0)"
    then have "coord_add coord d = (int (i + 1) + 1, int j + 1)"
      using co by (simp add: coord_add_def)
    moreover have "i + 1 < ?n" using i il by simp
    ultimately show ?thesis unfolding dom using jm by blast
  next
    assume "d = (0, -1)"
    then have "coord_add coord d = (int i + 1, int (j - 1) + 1)"
      using co j0 by (simp add: coord_add_def)
    moreover have "j - 1 < ?m" using jm by simp
    ultimately show ?thesis unfolding dom using i by blast
  next
    assume "d = (0, 1)"
    then have "coord_add coord d = (int i + 1, int (j + 1) + 1)"
      using co by (simp add: coord_add_def)
    moreover have "j + 1 < ?m" using jm jl by simp
    ultimately show ?thesis unfolding dom using i by blast
  qed
qed

section \<open>The example island\<close>

lemma validate_example: "validate_map example_geography = Inr ()"
  by (simp add: validate_map_def example_geography_def cell_map_def get_distinct_def)

lemma layout_example:
  "layout example_geography =
    [((1, 1), CHR ''W''), ((1, 2), CHR ''W''), ((1, 3), CHR ''W''),
     ((2, 1), CHR ''W''), ((2, 2), CHR ''L''), ((2, 3), CHR ''W''),
     ((3, 1), CHR ''W''), ((3, 2), CHR ''W''), ((3, 3), CHR ''W'')]"
  by (simp add: layout_def example_geography_def)

lemma example_island_built: "Island_init E example_geography = Inr (example_island E)"
  by (simp add: Island_init_def validate_example build_island_def layout_example
      cell_map_def example_island_def new_cell_def)

section \<open>Bulk parameter updates are all or nothing\<close>

lemma check_params_None_iff:
  "check_params keys params = None \<longleftrightarrow>
   (\<forall>(k, v)\<in>set params. k \<in> set keys \<and> is_float_or_int v)"
  by (induction params) (auto split: if_splits)

lemma check_params_ValueError:
  "check_params keys params = Some e \<Longrightarrow> \<exists>msg. e = ValueError msg"
  by (induction params) (auto split: if_splits)

lemma setattrs_other: "k \<notin> fst ` set params \<Longrightarrow> setattrs params attrs k = attrs k"
  by (induction params arbitrary: attrs) auto

lemma setattrs_listed:
  "distinct (map fst params) \<Longrightarrow> (k, v) \<in> set params \<Longrightarrow> setattrs params attrs k = Some v"
proof (induction params arbitrary: attrs)
  case Nil
  then show ?case by simp
next
  case (Cons p params)
  obtain k0 v0 where p: "p = (k0, v0)" by (cases p)
  show ?case
  proof (cases "(k, v) = (k0, v0)")
    case True
    then have "k \<notin> fst ` set params" using Cons.prems(1) p by (auto simp: image_iff)
    then show ?thesis using True p by (simp add: setattrs_other)
  next
    case False
    then have "(k, v) \<in> set params" using Cons.prems(2) p by auto
    moreover have "distinct (map fst params)" using Cons.prems(1) by simp
    ultimately have "setattrs params (attrs(k0 \<mapsto> v0)) k = Some v" by (rule Cons.IH[rotated])
    then show ?thesis using p by simp
  qed
qed

text \<open>
Claim C7.  A bulk parameter update is all or nothing.  For every parameter dictionary
  (a list of entries with distinct keys) and every key set \<open>default_params.keys()\<close>: if
  some key is unknown or some value is neither a \<open>float\<close> nor an \<open>int\<close>, \<open>set_params\<close>
  raises \<open>ValueError\<close> and the attributes of the class are what they were; if every entry
  is valid, no exception is raised, every listed parameter has its new value and every
  other attribute is unchanged.
\<close>

theorem set_params_all_or_nothing:
  assumes "distinct (map fst params)"
  shows "((\<exists>(k, v)\<in>set params. k \<notin> set keys \<or> \<not> is_float_or_int v) \<longrightarrow>
            (\<exists>msg. set_params keys params attrs = (Some (ValueError msg), attrs)))
       \<and> ((\<forall>(k, v)\<in>set params. k \<in> set keys \<and> is_float_or_int v) \<longrightarrow>
            (\<exists>attrs'. set_params keys params attrs = (None, attrs')
               \<and> (\<forall>(k, v)\<in>set params. attrs' k = Some v)
               \<and> (\<forall>k. k \<notin> fst ` set params \<longrightarrow> attrs' k = attrs k)))"
proof (intro conjI impI)
  assume "\<exists>(k, v)\<in>set params. k \<notin> set keys \<or> \<not> is_float_or_int v"
  then have "check_params keys params \<noteq> None"
    unfolding check_params_None_iff by auto
  then obtain e where e: "check_params keys params = Some e" by auto
  from check_params_ValueError[OF e] obtain msg where "e = ValueError msg" ..
  with e show "\<exists>msg. set_params keys params attrs = (Some (ValueError msg), attrs)"
    by (simp add: set_params_def)
next
  assume "\<forall>(k, v)\<in>set params. k \<in> set keys \<and> is_float_or_int v"
  then have "check_params keys params = None" by (simp add: check_params_None_iff)
  then have "set_params keys params attrs = (None, setattrs params attrs)"
    by (simp add: set_params_def)
  moreover have "\<forall>(k, v)\<in>set params. setattrs params attrs k = Some v"
    using setattrs_listed[OF assms] by auto
  moreover have "\<forall>k. k \<notin> fst ` set params \<longrightarrow> setattrs params attrs k = attrs k"
    by (simp add: setattrs_other)
  ultimately show "\<exists>attrs'. set_params keys params attrs = (None, attrs')
               \<and> (\<forall>(k, v)\<in>set params. attrs' k = Some v)
               \<and> (\<forall>k. k \<notin> fst ` set params \<longrightarrow> attrs' k = attrs k)"
    by blast
qed

theorem set_params_all_or_nothing_witness:
  "(\<exists>msg. set_params landscape_keys [(''f_max'', PyFloat 10), (''alpha'', PyInt 5)]
             [''f_max'' \<mapsto> PyInt 800] = (Some (ValueError msg), [''f_max'' \<mapsto> PyInt 800]))
   \<and> (\<exists>msg. set_params herbivore_keys [(''zeta'', PyFloat 3), (''xi'', PyBool True)]
             [''zeta'' \<mapsto> PyFloat (7/2)] = (Some (ValueError msg), [''zeta'' \<mapsto> PyFloat (7/2)]))
   \<and> (\<exists>attrs'. set_params carnivore_keys [(''F'', PyInt 0), (''DeltaPhiMax'', PyInt 0)]
             [''F'' \<mapsto> PyFloat 50, ''mu'' \<mapsto> PyFloat (4/10)] = (None, attrs')
        \<and> attrs' ''F'' = Some (PyInt 0) \<and> attrs' ''DeltaPhiMax'' = Some (PyInt 0)
        \<and> attrs' ''mu'' = Some (PyFloat (4/10)))"
proof -
  have d1: "distinct (map fst [(''f_max'', PyFloat 10), (''alpha'', PyInt 5)])" by simp
  have b1: "\<exists>(k, v)\<in>set [(''f_max'', PyFloat 10), (''alpha'', PyInt 5)].
              k \<notin> set landscape_keys \<or> \<not> is_float_or_int v"
    by (simp add: landscape_keys_def)
  note t1 = set_params_all_or_nothing[OF d1, of landscape_keys "[''f_max'' \<mapsto> PyInt 800]",
      THEN conjunct1, THEN mp, OF b1]
  have d2: "distinct (map fst [(''zeta'', PyFloat 3), (''xi'', PyBool True)])" by simp
  have b2: "\<exists>(k, v)\<in>set [(''zeta'', PyFloat 3), (''xi'', PyBool True)].
              k \<notin> set herbivore_keys \<or> \<not> is_float_or_int v"
    by (simp add: herbivore_keys_def)
  note t2 = set_params_all_or_nothing[OF d2, of herbivore_keys "[''zeta'' \<mapsto> PyFloat (7/2)]",
      THEN conjunct1, THEN mp, OF b2]
  have d3: "distinct (map fst [(''F'', PyInt 0), (''DeltaPhiMax'', PyInt 0)])" by simp
  have g3: "\<forall>(k, v)\<in>set [(''F'', PyInt 0), (''DeltaPhiMax'', PyInt 0)].
              k \<in> set carnivore_keys \<and> is_float_or_int v"
    by (simp add: carnivore_keys_def herbivore_keys_def)
  from set_params_all_or_nothing[OF d3, of carnivore_keys
      "[''F'' \<mapsto> PyFloat 50, ''mu'' \<mapsto> PyFloat (4/10)]", THEN conjunct2, THEN mp, OF g3]
  obtain attrs' where a: "set_params carnivore_keys [(''F'', PyInt 0), (''DeltaPhiMax'', PyInt 0)]
             [''F'' \<mapsto> PyFloat 50, ''mu'' \<mapsto> PyFloat (4/10)] = (None, attrs')"
    and l: "\<forall>(k, v)\<in>set [(''F'', PyInt 0), (''DeltaPhiMax'', PyInt 0)]. attrs' k = Some v"
    and o: "\<forall>k. k \<notin> fst ` set [(''F'', PyInt 0), (''DeltaPhiMax'', PyInt 0)] \<longrightarrow>
               attrs' k = [''F'' \<mapsto> PyFloat 50, ''mu'' \<mapsto> PyFloat (4/10)] k"
    by blast
  from l have "attrs' ''F'' = Some (PyInt 0)" "attrs' ''DeltaPhiMax'' = Some (PyInt 0)" by auto
  moreover from o have "attrs' ''mu'' = Some (PyFloat (4/10))" by simp
  ultimately show ?thesis using t1 t2 a by blast
qed

section \<open>Placement on water is rejected\<close>

lemma add_animal_water:
  "cls c = Water \<Longrightarrow>
   add_animal E c animal w = Inl (IllegalActionError ''Animals cannot be placed on water'')"
  by (simp add: add_animal_def)

lemma add_animal_Inr:
  "add_animal E c animal w = Inr (c', w') \<Longrightarrow> cls c \<noteq> Water \<and> cls c' = cls c"
  by (auto simp: add_animal_def place_animal_def split: if_splits option.splits sum.splits)

lemma place_pop_water:
  "place_pop E loc pop isle w = (e, isle', w') \<Longrightarrow>
   water_cells (island_map isle') = water_cells (island_map isle)"
proof (induction pop arbitrary: isle w)
  case Nil
  then show ?case by simp
next
  case (Cons a pop)
  show ?case
  proof (cases "island_map isle loc")
    case None
    then show ?thesis using Cons.prems by simp
  next
    case (Some c)
    show ?thesis
    proof (cases "add_animal E c a w")
      case (Inl err)
      then show ?thesis using Cons.prems Some by simp
    next
      case (Inr r)
      obtain c' w1 where r: "r = (c', w1)" by (cases r)
      from add_animal_Inr[OF Inr[unfolded r]] have nw: "cls c \<noteq> Water" "cls c' = cls c" by auto
      let ?isle1 = "isle\<lparr>island_map := (island_map isle)(loc \<mapsto> c')\<rparr>"
      have "place_pop E loc pop ?isle1 w1 = (e, isle', w')"
        using Cons.prems Some Inr r by simp
      from Cons.IH[OF this]
      have "water_cells (island_map isle') = water_cells (island_map ?isle1)" .
      also have "\<dots> = water_cells (island_map isle)"
        using nw Some by (auto simp: water_cells_def fun_eq_iff)
      finally show ?thesis .
    qed
  qed
qed

lemma place_animals_water:
  "place_animals E population isle w = (e, isle', w') \<Longrightarrow>
   water_cells (island_map isle') = water_cells (island_map isle)"
proof (induction population arbitrary: isle w)
  case Nil
  then show ?case by simp
next
  case (Cons p population)
  obtain loc pop where p: "p = (loc, pop)" by (cases p)
  obtain e1 isle1 w1 where pp: "place_pop E loc pop isle w = (e1, isle1, w1)"
    by (cases "place_pop E loc pop isle w") auto
  note w1 = place_pop_water[OF pp]
  show ?case
  proof (cases e1)
    case None
    then have "place_animals E population isle1 w1 = (e, isle', w')"
      using Cons.prems p pp by simp
    from Cons.IH[OF this] w1 show ?thesis by simp
  next
    case (Some err)
    then show ?thesis using Cons.prems p pp w1 by simp
  qed
qed

lemma place_animals_append:
  "place_animals E (xs @ ys) isle w =
     (case place_animals E xs isle w of
        (Some e, isle', w') \<Rightarrow> (Some e, isle', w')
      | (None, isle', w') \<Rightarrow> place_animals E ys isle' w')"
proof (induction xs arbitrary: isle w)
  case Nil
  then show ?case by simp
next
  case (Cons p xs)
  obtain loc pop where p: "p = (loc, pop)" by (cases p)
  obtain e1 isle1 w1 where pp: "place_pop E loc pop isle w = (e1, isle1, w1)"
    by (cases "place_pop E loc pop isle w") auto
  show ?case using Cons.IH[of isle1 w1] p pp by (cases e1) auto
qed

lemma water_cells_Some:
  "water_cells im k = Some c \<longleftrightarrow> im k = Some c \<and> cls c = Water"
  by (auto simp: water_cells_def split: option.splits if_splits)

text \<open>
Claim C9.  Placing an animal on water is rejected.  On an island whose water cells are
  empty: \<open>add_animal\<close> on a water cell raises \<open>IllegalActionError\<close> for every animal
  dictionary; when \<open>place_animals\<close> has placed the entries \<open>pre\<close> and comes to an entry
  with at least one animal at a water coordinate, it raises \<open>IllegalActionError\<close> (it does
  not return), the island is as the entries before left it and the water cell is the
  same empty cell; and after every call of \<open>place_animals\<close>, raising or not, the water
  cells are still empty.
\<close>

theorem water_placement_rejected:
  assumes "water_empty isle"
  shows "(cls c = Water \<longrightarrow>
            add_animal E c animal w = Inl (IllegalActionError ''Animals cannot be placed on water''))
       \<and> (place_animals E pre isle w = (None, isle1, w1) \<and> island_map isle loc = Some c \<and> cls c = Water \<longrightarrow>
            place_animals E (pre @ (loc, animal # pop) # post) isle w
              = (Some (IllegalActionError ''Animals cannot be placed on water''), isle1, w1)
            \<and> island_map isle1 loc = Some c \<and> herbivores c = [] \<and> carnivores c = [])
       \<and> (place_animals E population isle w = (e, isle', w') \<longrightarrow> water_empty isle')"
proof (intro conjI impI)
  assume "cls c = Water"
  then show "add_animal E c animal w = Inl (IllegalActionError ''Animals cannot be placed on water'')"
    by (rule add_animal_water)
next
  assume a: "place_animals E pre isle w = (None, isle1, w1) \<and> island_map isle loc = Some c \<and> cls c = Water"
  then have wc: "water_cells (island_map isle) loc = Some c" by (simp add: water_cells_Some)
  from a place_animals_water[of E pre isle w None isle1 w1]
  have "water_cells (island_map isle1) loc = Some c" using wc by simp
  then have c1: "island_map isle1 loc = Some c" by (simp add: water_cells_Some)
  have "place_pop E loc (animal # pop) isle1 w1
          = (Some (IllegalActionError ''Animals cannot be placed on water''), isle1, w1)"
    using c1 a by (simp add: add_animal_water)
  then have "place_animals E ((loc, animal # pop) # post) isle1 w1
          = (Some (IllegalActionError ''Animals cannot be placed on water''), isle1, w1)"
    by simp
  then show "place_animals E (pre @ (loc, animal # pop) # post) isle w
              = (Some (IllegalActionError ''Animals cannot be placed on water''), isle1, w1)"
    using a by (simp add: place_animals_append)
  show "island_map isle1 loc = Some c" by (rule c1)
  from assms wc show "herbivores c = []" "carnivores c = []" unfolding water_empty_def by blast+
next
  assume "place_animals E population isle w = (e, isle', w')"
  from place_animals_water[OF this] assms show "water_empty isle'"
    by (simp add: water_empty_def)
qed

theorem water_placement_rejected_witness:
  "water_empty (example_island default_env)
   \<and> add_animal default_env (new_cell default_env Water)
         \<lparr>d_species = Some ''Herbivore'', d_age = Some 1, d_weight = Some 10\<rparr> world0
       = Inl (IllegalActionError ''Animals cannot be placed on water'')
   \<and> (\<exists>isle1 w1.
         place_animals default_env
           [((2, 2), [\<lparr>d_species = Some ''Carnivore'', d_age = Some 2, d_weight = Some 20\<rparr>]),
            ((1, 1), [\<lparr>d_species = Some ''Herbivore'', d_age = Some 1, d_weight = Some 10\<rparr>,
                      \<lparr>d_species = Some ''Herbivore'', d_age = Some 2, d_weight = Some 20\<rparr>])]
           (example_island default_env) world0
         = (Some (IllegalActionError ''Animals cannot be placed on water''), isle1, w1)
       \<and> island_map isle1 (1, 1) = Some (new_cell default_env Water)
       \<and> herbivores (new_cell default_env Water) = []
       \<and> carnivores (new_cell default_env Water) = []
       \<and> water_empty isle1)"
proof -
  let ?E = default_env
  let ?d = "\<lparr>d_species = Some ''Herbivore'', d_age = Some 1, d_weight = Some 10\<rparr>"
  let ?d2 = "\<lparr>d_species = Some ''Herbivore'', d_age = Some 2, d_weight = Some 20\<rparr>"
  let ?dc = "\<lparr>d_species = Some ''Carnivore'', d_age = Some 2, d_weight = Some 20\<rparr>"
  have we: "water_empty (example_island ?E)"
    by (auto simp: water_empty_def water_cells_Some example_island_def new_cell_def
        split: if_splits)
  have cw: "cls (new_cell ?E Water) = Water" by (simp add: new_cell_def)
  obtain e isle1 w1 where pre: "place_animals ?E [((2, 2), [?dc])] (example_island ?E) world0 = (e, isle1, w1)"
    by (cases "place_animals ?E [((2, 2), [?dc])] (example_island ?E) world0") auto
  have e: "e = None"
    using pre by (auto simp: example_island_def add_animal_def new_cell_def animal_map_def
        Animal_init_def split: option.splits sum.splits)
  have m: "island_map (example_island ?E) (1, 1) = Some (new_cell ?E Water)"
    by (simp add: example_island_def)
  note T = water_placement_rejected[OF we, of "new_cell ?E Water" ?E ?d world0
      "[((2, 2), [?dc])]" isle1 w1 "(1, 1)" "[?d2]" "[]" "[((2, 2), [?dc])]" e isle1 w1]
  from T cw have a: "add_animal ?E (new_cell ?E Water) ?d world0
       = Inl (IllegalActionError ''Animals cannot be placed on water'')" by blast
  from T pre e m cw have b: "place_animals ?E ([((2, 2), [?dc])] @ [((1, 1), [?d, ?d2])])
           (example_island ?E) world0
         = (Some (IllegalActionError ''Animals cannot be placed on water''), isle1, w1)
       \<and> island_map isle1 (1, 1) = Some (new_cell ?E Water)
       \<and> herbivores (new_cell ?E Water) = []
       \<and> carnivores (new_cell ?E Water) = []" by blast
  from T pre have c: "water_empty isle1" by blast
  from we a b c show ?thesis by auto
qed

section \<open>Giving birth\<close>

lemma fitness_nonneg: "0 \<le> fitness E a"
  by (simp add: fitness_def Let_def add_nonneg_nonneg)

lemma fitness_pos: "0 < weight a \<Longrightarrow> 0 < fitness E a"
  by (simp add: fitness_def Let_def add_pos_pos)

lemma random_random_range: "0 \<le> fst (random_random w) \<and> fst (random_random w) < 1"
  by (simp add: random_random_def frac_lt_1)

text \<open>
Claim C4.  \<open>give_birth(n)\<close> returns no newborn when \<open>n \<le> 1\<close> (nothing is drawn and
  nothing changes) and when the mother's weight is below
  \<open>zeta * (w_birth + sigma_birth)\<close>; when a newborn is returned, the mother's weight has
  gone down by exactly \<open>xi\<close> times the newborn's weight and that difference is not
  negative; and whenever no newborn is returned, in particular when the charge would make
  her weight negative, the mother is unchanged.
\<close>

theorem give_birth_gates:
  "(n \<le> 1 \<longrightarrow> give_birth E a n w = (None, a, w))
   \<and> (weight a < zeta (sp E (species a)) * (w_birth (sp E (species a)) + sigma_birth (sp E (species a)))
        \<longrightarrow> fst (give_birth E a n w) = None \<and> fst (snd (give_birth E a n w)) = a)
   \<and> (give_birth E a n w = (Some child, a', w') \<longrightarrow>
          weight a' = weight a - xi (sp E (species a)) * weight child
        \<and> 0 \<le> weight a - xi (sp E (species a)) * weight child
        \<and> a' = a\<lparr>weight := weight a'\<rparr>)
   \<and> (give_birth E a n w = (None, a', w') \<longrightarrow> a' = a)"
proof -
  have 1: "n \<le> 1 \<longrightarrow> give_birth E a n w = (None, a, w)"
    by (simp add: give_birth_def)
  have "\<not> fst (random_random w) < 0" using random_random_range[of w] by simp
  then have 2: "weight a < zeta (sp E (species a)) * (w_birth (sp E (species a)) + sigma_birth (sp E (species a)))
        \<longrightarrow> fst (give_birth E a n w) = None \<and> fst (snd (give_birth E a n w)) = a"
    by (simp add: give_birth_def Let_def split_beta)
  have 3: "give_birth E a n w = (Some child, a', w') \<longrightarrow>
          weight a' = weight a - xi (sp E (species a)) * weight child
        \<and> 0 \<le> weight a - xi (sp E (species a)) * weight child
        \<and> a' = a\<lparr>weight := weight a'\<rparr>"
    by (auto simp: give_birth_def Let_def split_beta split: if_splits)
  have 4: "give_birth E a n w = (None, a', w') \<longrightarrow> a' = a"
    by (auto simp: give_birth_def Let_def split_beta split: if_splits)
  from 1 2 3 4 show ?thesis by blast
qed

theorem give_birth_gates_witness:
  "give_birth default_env \<lparr>aid = 0, species = Herbivore, age = 1, weight = 43, is_dead = False\<rparr> 1 world0
     = (None, \<lparr>aid = 0, species = Herbivore, age = 1, weight = 43, is_dead = False\<rparr>, world0)
   \<and> fst (give_birth default_env
            \<lparr>aid = 0, species = Herbivore, age = 1, weight = 10, is_dead = False\<rparr> 2 world0) = None
   \<and> (\<exists>child a' w'.
         give_birth default_env
            \<lparr>aid = 0, species = Herbivore, age = 1, weight = 43, is_dead = False\<rparr> 2 world0
           = (Some child, a', w')
       \<and> weight child = 8 \<and> weight a' = 43 - (12/10) * 8)
   \<and> (\<exists>a' w'.
         give_birth default_env
            \<lparr>aid = 0, species = Carnivore, age = 1, weight = 25, is_dead = False\<rparr> 2
            (world0\<lparr>gausses := (\<lambda>_. 20)\<rparr>)
           = (None, a', w')
       \<and> a' = \<lparr>aid = 0, species = Carnivore, age = 1, weight = 25, is_dead = False\<rparr>)"
proof -
  let ?E = default_env
  let ?m = "\<lparr>aid = 0, species = Herbivore, age = 1, weight = 43, is_dead = False\<rparr>"
  let ?l = "\<lparr>aid = 0, species = Herbivore, age = 1, weight = 10, is_dead = False\<rparr>"
  let ?c = "\<lparr>aid = 0, species = Carnivore, age = 1, weight = 25, is_dead = False\<rparr>"
  have n1: "(1::int) \<le> 1" by simp
  have low: "weight ?l < zeta (sp ?E (species ?l)) * (w_birth (sp ?E (species ?l)) + sigma_birth (sp ?E (species ?l)))"
    by (simp add: default_env_def herbivore_defaults_def)
  have ph: "sp ?E Herbivore = herbivore_defaults" and pc: "sp ?E Carnivore = carnivore_defaults"
    by (simp_all add: default_env_def)
  have fm: "0 < fitness ?E ?m" by (simp add: fitness_pos)
  have fc: "0 < fitness ?E ?c" by (simp add: fitness_pos)
  have gm: "give_birth ?E ?m 2 world0
      = (Some \<lparr>aid = 0, species = Herbivore, age = 0, weight = 8, is_dead = False\<rparr>,
         ?m\<lparr>weight := 43 - (12/10) * 8\<rparr>,
         world0\<lparr>pos := 2, next_aid := 1\<rparr>)"
    using fm
    by (simp add: give_birth_def Let_def random_random_def random_gauss_def world0_def
        ph herbivore_defaults_def)
  have gc: "give_birth ?E ?c 2 (world0\<lparr>gausses := (\<lambda>_. 20)\<rparr>)
      = (None, ?c, world0\<lparr>gausses := (\<lambda>_. 20), pos := 2, next_aid := 1\<rparr>)"
    using fc
    by (simp add: give_birth_def Let_def random_random_def random_gauss_def world0_def
        pc carnivore_defaults_def)
  note T1 = give_birth_gates[of 1 ?E ?m world0, THEN conjunct1, THEN mp, OF n1]
  note T2 = give_birth_gates[of 2 ?E ?l world0, THEN conjunct2, THEN conjunct1, THEN mp, OF low]
  note T3 = give_birth_gates[of 2 ?E ?m world0, THEN conjunct2, THEN conjunct2, THEN conjunct1, THEN mp, OF gm]
  note T4 = give_birth_gates[of 2 ?E ?c "world0\<lparr>gausses := (\<lambda>_. 20)\<rparr>", THEN conjunct2, THEN conjunct2, THEN conjunct2, THEN mp, OF gc]
  from T3 have "weight (?m\<lparr>weight := 43 - (12/10) * 8\<rparr>) = 43 - (12/10) * 8" by simp
  with T1 T2 gm gc T4 show ?thesis by auto
qed

section \<open>The birth phase\<close>

lemma birth_comp_attempts:
  "birth_comp E animals xs w = birth_attempts E (int (length animals)) xs w"
  by (induction xs arbitrary: w) (simp_all add: split_beta)

lemma give_birth_mother_aid: "aid (fst (snd (give_birth E a n w))) = aid a"
  by (simp add: give_birth_def Let_def split_beta)

lemma give_birth_next_aid: "next_aid w \<le> next_aid (snd (snd (give_birth E a n w)))"
  by (simp add: give_birth_def Let_def split_beta random_random_def random_gauss_def)

lemma give_birth_child:
  "fst (give_birth E a n w) = Some ch \<Longrightarrow>
   age ch = 0 \<and> species ch = species a \<and> next_aid w \<le> aid ch
   \<and> aid ch < next_aid (snd (snd (give_birth E a n w)))"
  by (auto simp: give_birth_def Let_def split_beta random_random_def random_gauss_def
      split: if_splits)

lemma birth_attempts_next_aid:
  "next_aid w \<le> next_aid (snd (snd (birth_attempts E n xs w)))"
proof (induction xs arbitrary: w)
  case Nil
  then show ?case by simp
next
  case (Cons a xs)
  have "next_aid w \<le> next_aid (snd (snd (give_birth E a n w)))" by (rule give_birth_next_aid)
  also have "\<dots> \<le> next_aid (snd (snd (birth_attempts E n xs (snd (snd (give_birth E a n w))))))"
    by (rule Cons.IH)
  finally show ?case by (simp add: split_beta)
qed

lemma birth_attempts_props:
  "birth_attempts E n xs w = (ms, children, w') \<Longrightarrow>
   map aid ms = map aid xs \<and> length children \<le> length xs
   \<and> (\<forall>ch\<in>set children. age ch = 0 \<and> next_aid w \<le> aid ch \<and> aid ch < next_aid w')"
proof (induction xs arbitrary: w ms children)
  case Nil
  then show ?case by simp
next
  case (Cons a xs)
  let ?g = "give_birth E a n w"
  let ?w1 = "snd (snd ?g)"
  obtain ms1 ch1 where r: "birth_attempts E n xs ?w1 = (ms1, ch1, w')"
    using Cons.prems by (cases "birth_attempts E n xs ?w1") (auto simp: split_beta)
  from Cons.IH[OF r] have ih: "map aid ms1 = map aid xs" "length ch1 \<le> length xs"
    "\<forall>ch\<in>set ch1. age ch = 0 \<and> next_aid ?w1 \<le> aid ch \<and> aid ch < next_aid w'" by auto
  have ms: "ms = fst (snd ?g) # ms1"
    and ch: "children = (case fst ?g of None \<Rightarrow> ch1 | Some c \<Rightarrow> c # ch1)"
    using Cons.prems r by (auto simp: split_beta split: option.splits)
  have mono1: "next_aid w \<le> next_aid ?w1" by (rule give_birth_next_aid)
  have mono2: "next_aid ?w1 \<le> next_aid w'"
    using birth_attempts_next_aid[of ?w1 E n xs] r by simp
  have a: "map aid ms = map aid (a # xs)" using ms ih(1) by (simp add: give_birth_mother_aid)
  have b: "length children \<le> length (a # xs)" using ch ih(2) by (cases "fst ?g") auto
  have c: "\<forall>c\<in>set children. age c = 0 \<and> next_aid w \<le> aid c \<and> aid c < next_aid w'"
  proof (cases "fst ?g")
    case None
    then show ?thesis using ch ih(3) mono1 by auto
  next
    case (Some c0)
    from give_birth_child[OF Some] mono2
    have "age c0 = 0 \<and> next_aid w \<le> aid c0 \<and> aid c0 < next_aid w'" by auto
    then show ?thesis using Some ch ih(3) mono1 by auto
  qed
  from a b c show ?case by blast
qed

text \<open>
Claim C5.  \<open>Baseland.birth\<close> is the birth phase of the specification, for herbivores and
  carnivores independently: when the count \<open>n\<close> of a species before the phase is above 1,
  every agent of the list attempts \<open>give_birth(n)\<close> with that same \<open>n\<close>, and the newborns
  are appended after all attempts; otherwise the list is unchanged.  The agents after the
  attempts are the agents before them, in order (as objects); the newborns are objects
  created during the phase, of age 0, at most one per agent, and none of them is among
  the agents that attempt.
\<close>

theorem birth_uses_prephase_count:
  "birth E c w =
     (let (hs, w1) = species_birth E (herbivores c) w;
          (cs, w2) = species_birth E (carnivores c) w1
      in (c\<lparr>herbivores := hs, carnivores := cs\<rparr>, w2))
   \<and> (birth_attempts E n agents w0 = (agents', newborns, w') \<longrightarrow>
        map aid agents' = map aid agents \<and> length newborns \<le> length agents
        \<and> (\<forall>ch\<in>set newborns. age ch = 0 \<and> next_aid w0 \<le> aid ch \<and> aid ch < next_aid w'))"
proof -
  have "birth E c w =
     (let (hs, w1) = species_birth E (herbivores c) w;
          (cs, w2) = species_birth E (carnivores c) w1
      in (c\<lparr>herbivores := hs, carnivores := cs\<rparr>, w2))"
    by (simp add: birth_def species_birth_def birth_comp_attempts Let_def split_beta)
  then show ?thesis using birth_attempts_props[of E n agents w0 agents' newborns w'] by blast
qed

theorem birth_uses_prephase_count_witness:
  "(\<exists>w'. birth default_env
        ((new_cell default_env Lowland)
           \<lparr>herbivores := [\<lparr>aid = 10, species = Herbivore, age = 1, weight = 43, is_dead = False\<rparr>,
                           \<lparr>aid = 11, species = Herbivore, age = 2, weight = 43, is_dead = False\<rparr>]\<rparr>)
        (world0\<lparr>next_aid := 12\<rparr>)
      = ((new_cell default_env Lowland)
           \<lparr>herbivores := [\<lparr>aid = 10, species = Herbivore, age = 1, weight = 167/5, is_dead = False\<rparr>,
                           \<lparr>aid = 11, species = Herbivore, age = 2, weight = 167/5, is_dead = False\<rparr>,
                           \<lparr>aid = 12, species = Herbivore, age = 0, weight = 8, is_dead = False\<rparr>,
                           \<lparr>aid = 13, species = Herbivore, age = 0, weight = 8, is_dead = False\<rparr>]\<rparr>, w'))
   \<and> (\<exists>agents' newborns w'.
        birth_attempts default_env 2
          [\<lparr>aid = 10, species = Herbivore, age = 1, weight = 43, is_dead = False\<rparr>,
           \<lparr>aid = 11, species = Herbivore, age = 2, weight = 43, is_dead = False\<rparr>]
          (world0\<lparr>next_aid := 12\<rparr>) = (agents', newborns, w')
        \<and> map aid agents' = [10, 11] \<and> map age newborns = [0, 0] \<and> map aid newborns = [12, 13])"
proof -
  let ?E = default_env
  let ?m1 = "\<lparr>aid = 10, species = Herbivore, age = 1, weight = 43, is_dead = False\<rparr>"
  let ?m2 = "\<lparr>aid = 11, species = Herbivore, age = 2, weight = 43, is_dead = False\<rparr>"
  let ?c = "(new_cell ?E Lowland)\<lparr>herbivores := [?m1, ?m2]\<rparr>"
  let ?w = "world0\<lparr>next_aid := 12\<rparr>"
  have ph: "sp ?E Herbivore = herbivore_defaults" by (simp add: default_env_def)
  have f1: "0 < fitness ?E ?m1" and f2: "0 < fitness ?E ?m2" by (simp_all add: fitness_pos)
  have ev: "birth_attempts ?E 2 [?m1, ?m2] ?w
      = ([?m1\<lparr>weight := 167/5\<rparr>, ?m2\<lparr>weight := 167/5\<rparr>],
         [\<lparr>aid = 12, species = Herbivore, age = 0, weight = 8, is_dead = False\<rparr>,
          \<lparr>aid = 13, species = Herbivore, age = 0, weight = 8, is_dead = False\<rparr>],
         world0\<lparr>pos := 4, next_aid := 14\<rparr>)"
    using f1 f2
    by (simp add: give_birth_def Let_def random_random_def random_gauss_def world0_def
        ph herbivore_defaults_def)
  note T1 = birth_uses_prephase_count[of ?E ?c ?w, THEN conjunct1]
  note T2 = birth_uses_prephase_count[of ?E _ _ 2 "[?m1, ?m2]" ?w, THEN conjunct2, THEN mp, OF ev]
  have a: "birth ?E ?c ?w
      = (?c\<lparr>herbivores := [?m1\<lparr>weight := 167/5\<rparr>, ?m2\<lparr>weight := 167/5\<rparr>,
          \<lparr>aid = 12, species = Herbivore, age = 0, weight = 8, is_dead = False\<rparr>,
          \<lparr>aid = 13, species = Herbivore, age = 0, weight = 8, is_dead = False\<rparr>]\<rparr>,
         world0\<lparr>pos := 4, next_aid := 14\<rparr>)"
  proof -
    have ev': "birth_attempts ?E (int (length [?m1, ?m2])) [?m1, ?m2] ?w
      = ([?m1\<lparr>weight := 167/5\<rparr>, ?m2\<lparr>weight := 167/5\<rparr>],
         [\<lparr>aid = 12, species = Herbivore, age = 0, weight = 8, is_dead = False\<rparr>,
          \<lparr>aid = 13, species = Herbivore, age = 0, weight = 8, is_dead = False\<rparr>],
         world0\<lparr>pos := 4, next_aid := 14\<rparr>)"
      using ev by simp
    have sb: "species_birth ?E [?m1, ?m2] ?w
      = ([?m1\<lparr>weight := 167/5\<rparr>, ?m2\<lparr>weight := 167/5\<rparr>,
          \<lparr>aid = 12, species = Herbivore, age = 0, weight = 8, is_dead = False\<rparr>,
          \<lparr>aid = 13, species = Herbivore, age = 0, weight = 8, is_dead = False\<rparr>],
         world0\<lparr>pos := 4, next_aid := 14\<rparr>)"
      unfolding species_birth_def ev' by simp
    have cs: "\<And>w1. species_birth ?E [] w1 = ([], w1)" by (simp add: species_birth_def)
    show ?thesis unfolding T1 by (simp add: sb cs new_cell_def)
  qed
  from T2 have b: "map aid [?m1\<lparr>weight := 167/5\<rparr>, ?m2\<lparr>weight := 167/5\<rparr>] = map aid [?m1, ?m2]"
    by blast
  show ?thesis
    apply (rule conjI)
    using a apply (simp add: new_cell_def)
    using ev b apply simp
    done
qed

end
